theory Spec2Isabelle
  imports Complex_Main "HOL-Library.Monad_Syntax"
begin

section \<open>Numbers\<close>

text \<open>
  The program computes in \<open>float32\<close> and \<open>float64\<close>. Both are modelled by the real
  numbers: rounding is not represented, and the arithmetic facts used below
  (\<open>x * 1 = x\<close>, counting up to 98 by adding 1) hold for the machine numbers as well.
  The one place where the machine arithmetic leaves the finite numbers on inputs the
  program can meet, the divisions of \<open>Sim.MemStats\<close>, is modelled with the
  non-finite results written out (type \<open>f64\<close> below).
\<close>

type_synonym float32 = real

section \<open>CHLParams\<close>

record CHLParams =
  On :: bool
  Hebb :: float32
  Err :: float32
  MinusQ1 :: bool
  MinusQ2 :: bool
  SAvgCor :: float32
  SAvgThr :: float32

definition CHLParams_Update :: "CHLParams \<Rightarrow> CHLParams" where
  "CHLParams_Update ch = ch\<lparr>Err := 1 - Hebb ch\<rparr>"

definition CHLParams_Defaults :: "CHLParams \<Rightarrow> CHLParams" where
  "CHLParams_Defaults ch =
     CHLParams_Update (ch\<lparr>On := True, Hebb := 0.001, SAvgCor := 0.4, SAvgThr := 0.001\<rparr>)"

text \<open>\<open>MinusAct\<close> returns the minus-phase activation to use based on settings.\<close>

definition MinusAct :: "CHLParams \<Rightarrow> float32 \<Rightarrow> float32 \<Rightarrow> float32 \<Rightarrow> float32" where
  "MinusAct ch actM actQ1 actQ2 =
     (if MinusQ1 ch then actQ1
      else if MinusQ2 ch then actQ2
      else actM)"

text \<open>\<open>HebbDWt\<close> computes the hebbian DWt value from sending, recv acts, savgCor, and linear Wt.\<close>

definition HebbDWt :: "CHLParams \<Rightarrow> float32 \<Rightarrow> float32 \<Rightarrow> float32 \<Rightarrow> float32 \<Rightarrow> float32" where
  "HebbDWt ch sact ract savgCor linWt = ract * (sact * (savgCor - linWt) - (1 - sact) * linWt)"

text \<open>\<open>ErrDWt\<close> computes the error-driven DWt value, with soft weight bounding.\<close>

definition ErrDWt ::
  "CHLParams \<Rightarrow> float32 \<Rightarrow> float32 \<Rightarrow> float32 \<Rightarrow> float32 \<Rightarrow> float32 \<Rightarrow> float32" where
  "ErrDWt ch sactP sactM ractP ractM linWt =
     (let err = (ractP * sactP) - (ractM * sactM)
      in if err > 0 then err * (1 - linWt) else err * linWt)"

text \<open>\<open>CHLParams.DWt\<close> computes the overall dwt from hebbian and error terms.\<close>

definition CHLParams_DWt :: "CHLParams \<Rightarrow> float32 \<Rightarrow> float32 \<Rightarrow> float32" where
  "CHLParams_DWt ch hebb err = Hebb ch * hebb + Err ch * err"

section \<open>CHLPrjn\<close>

text \<open>
  The parts of leabra's synapse, neuron, layer and projection that the code of this
  repository reads or writes. \<open>Pool0_ActP_Avg\<close> is \<open>Pools[0].ActP.Avg\<close> and
  \<open>Pool0_ActPAvgEff\<close> is \<open>Pools[0].ActAvg.ActPAvgEff\<close>; every layer has its
  whole-layer pool \<open>Pools[0]\<close>. The connection counts and
  indices are \<open>int32\<close> in leabra, an \<open>int\<close> once converted; no sum of two of them
  overflows a 64-bit \<open>int\<close>.
\<close>

record Synapse =
  Wt :: float32
  LWt :: float32
  DWt :: float32
  Norm :: float32
  Moment :: float32

record Neuron =
  ActM :: float32
  ActP :: float32
  ActQ1 :: float32
  ActQ2 :: float32

record Layer =
  Neurons :: "Neuron list"
  Pool0_ActP_Avg :: float32
  Pool0_ActPAvgEff :: float32

record leabra_Prjn =
  Learn_Learn :: bool
  Learn_Lrate :: float32
  Learn_Norm_On :: bool
  Learn_Momentum_On :: bool
  Learn_WtBal_On :: bool
  Learn_WtSig_SoftBound :: bool
  SConN :: "int list"
  SConIdxSt :: "int list"
  SConIdx :: "int list"
  Syns :: "Synapse list"

record CHLPrjn =
  Prjn :: leabra_Prjn
  CHL :: CHLParams

text \<open>
  The methods of leabra that the projection calls are not part of this repository.
  They are taken as parameters: \<open>Prjn_Defaults\<close> and \<open>Prjn_UpdateParams\<close> act on the
  embedded projection; \<open>Prjn_DWt\<close> is the standard learning rule, given the
  sending and the receiving layer, and may panic (\<open>None\<close>);
  \<open>NormFmAbsDWt\<close> takes the synapse's \<open>Norm\<close> and \<open>|dwt|\<close> and returns the new
  \<open>Norm\<close> and the normalization factor; \<open>MomentFmDWt\<close> takes the synapse's
  \<open>Moment\<close> and \<open>dwt\<close> and returns the new \<open>Moment\<close> and the momentum-shaped delta.
\<close>

record leabra =
  Prjn_Defaults :: "leabra_Prjn \<Rightarrow> leabra_Prjn"
  Prjn_UpdateParams :: "leabra_Prjn \<Rightarrow> leabra_Prjn"
  Prjn_DWt :: "leabra_Prjn \<Rightarrow> Layer \<Rightarrow> Layer \<Rightarrow> leabra_Prjn option"
  NormFmAbsDWt :: "float32 \<Rightarrow> float32 \<Rightarrow> float32 \<times> float32"
  MomentFmDWt :: "float32 \<Rightarrow> float32 \<Rightarrow> float32 \<times> float32"

definition CHLPrjn_Defaults :: "leabra \<Rightarrow> CHLPrjn \<Rightarrow> CHLPrjn" where
  "CHLPrjn_Defaults lb pj =
     (let pj1 = pj\<lparr>Prjn := Prjn_Defaults lb (Prjn pj)\<rparr>;
          pj2 = pj1\<lparr>CHL := CHLParams_Defaults (CHL pj1)\<rparr>
      in pj2\<lparr>Prjn := (Prjn pj2)\<lparr>Learn_Norm_On := False, Learn_Momentum_On := False,
                                 Learn_WtBal_On := False\<rparr>\<rparr>)"

definition CHLPrjn_UpdateParams :: "leabra \<Rightarrow> CHLPrjn \<Rightarrow> CHLPrjn" where
  "CHLPrjn_UpdateParams lb pj =
     (let pj1 = pj\<lparr>CHL := CHLParams_Update (CHL pj)\<rparr>;
          pj2 = (if On (CHL pj1)
                 then pj1\<lparr>Prjn := (Prjn pj1)\<lparr>Learn_WtSig_SoftBound := False\<rparr>\<rparr>
                 else pj1)
      in pj2\<lparr>Prjn := Prjn_UpdateParams lb (Prjn pj2)\<rparr>)"

text \<open>
  \<open>SAvgCor\<close> computes the sending average activation, corrected according to the
  \<open>SAvgCor\<close> correction factor. Where \<open>savg\<close> is 0 the machine division gives an
  infinity, which the real numbers do not have; \<open>savg\<close> is at least \<open>SAvgThr\<close>
  (lemma \<open>savg_ge_thr\<close>), so this needs a threshold that is not positive.
\<close>

definition CHLPrjn_SAvgCor :: "CHLPrjn \<Rightarrow> Layer \<Rightarrow> float32" where
  "CHLPrjn_SAvgCor pj slay =
     (let savg = 0.5 + SAvgCor (CHL pj) * (Pool0_ActPAvgEff slay - 0.5);
          savg = max (SAvgThr (CHL pj)) savg
      in 0.5 / savg)"

subsection \<open>Go's index and slice expressions\<close>

text \<open>
  \<open>xs[i]\<close> panics unless \<open>0 \<le> i < len(xs)\<close>. \<open>xs[lo:hi]\<close> panics unless
  \<open>0 \<le> lo \<le> hi \<le> cap(xs)\<close>; the arrays of a projection are allocated at their
  length, so the capacity is the length. A panic is \<open>None\<close>.
\<close>

definition index :: "'a list \<Rightarrow> int \<Rightarrow> 'a option" where
  "index xs i = (if 0 \<le> i \<and> i < int (length xs) then Some (xs ! nat i) else None)"

definition slice :: "'a list \<Rightarrow> int \<Rightarrow> int \<Rightarrow> 'a list option" where
  "slice xs lo hi =
     (if 0 \<le> lo \<and> lo \<le> hi \<and> hi \<le> int (length xs)
      then Some (take (nat (hi - lo)) (drop (nat lo) xs)) else None)"

text \<open>Writing through a slice writes the array under it: \<open>xs[lo:lo+len(ys)]\<close> becomes \<open>ys\<close>.\<close>

definition unslice :: "'a list \<Rightarrow> int \<Rightarrow> 'a list \<Rightarrow> 'a list" where
  "unslice xs lo ys = take (nat lo) xs @ ys @ drop (nat lo + length ys) xs"

subsection \<open>Learn methods\<close>

text \<open>
  The body of the loop over the synapses of one sending neuron \<open>sn\<close> in \<open>DWtCHL\<close>,
  for the synapse \<open>sy\<close> and its receiving neuron \<open>rn\<close>.
\<close>

definition DWtCHL_syn ::
  "leabra \<Rightarrow> CHLPrjn \<Rightarrow> Neuron \<Rightarrow> float32 \<Rightarrow> float32 \<Rightarrow> Neuron \<Rightarrow> Synapse \<Rightarrow> Synapse" where
  "DWtCHL_syn lb pj sn snActM savgCor rn sy =
     (let rnActM = MinusAct (CHL pj) (ActM rn) (ActQ1 rn) (ActQ2 rn);
          hebb = HebbDWt (CHL pj) (ActP sn) (ActP rn) savgCor (LWt sy);
          err = ErrDWt (CHL pj) (ActP sn) snActM (ActP rn) rnActM (LWt sy);
          dwt = CHLParams_DWt (CHL pj) hebb err;
          (sy1, norm) =
            (if Learn_Norm_On (Prjn pj)
             then (let (n, f) = NormFmAbsDWt lb (Norm sy) \<bar>dwt\<bar> in (sy\<lparr>Norm := n\<rparr>, f))
             else (sy, 1));
          (sy2, dwt2) =
            (if Learn_Momentum_On (Prjn pj)
             then (let (m, d) = MomentFmDWt lb (Moment sy1) dwt in (sy1\<lparr>Moment := m\<rparr>, norm * d))
             else (sy1, dwt * norm))
      in sy2\<lparr>DWt := DWt sy2 + Learn_Lrate (Prjn pj) * dwt2\<rparr>)"

text \<open>
  The loop \<open>for ci := range syns\<close>: \<open>scons[ci]\<close> is the index of the receiving neuron
  of \<open>syns[ci]\<close>, and \<open>rlay.Neurons[ri]\<close> panics when it is out of range.
\<close>

fun DWtCHL_syns ::
  "leabra \<Rightarrow> CHLPrjn \<Rightarrow> Neuron \<Rightarrow> float32 \<Rightarrow> float32 \<Rightarrow> Layer \<Rightarrow> int list \<Rightarrow> Synapse list
     \<Rightarrow> Synapse list option" where
  "DWtCHL_syns lb pj sn snActM savgCor rlay scons [] = Some []"
| "DWtCHL_syns lb pj sn snActM savgCor rlay [] (sy # syns) = None"
| "DWtCHL_syns lb pj sn snActM savgCor rlay (ri # scons) (sy # syns) =
     do {
       rn \<leftarrow> index (Neurons rlay) ri;
       syns' \<leftarrow> DWtCHL_syns lb pj sn snActM savgCor rlay scons syns;
       Some (DWtCHL_syn lb pj sn snActM savgCor rn sy # syns')
     }"

text \<open>Aggregate max DWtNorm over sending synapses.\<close>

definition maxNorm :: "Synapse list \<Rightarrow> float32" where
  "maxNorm syns = fold (\<lambda>sy m. if Norm sy > m then Norm sy else m) syns 0"

definition DWtCHL_norm :: "Synapse list \<Rightarrow> Synapse list" where
  "DWtCHL_norm syns = map (\<lambda>sy. sy\<lparr>Norm := maxNorm syns\<rparr>) syns"

text \<open>The body of the loop \<open>for si := range slay.Neurons\<close>.\<close>

definition DWtCHL_send :: "leabra \<Rightarrow> Layer \<Rightarrow> Layer \<Rightarrow> CHLPrjn \<Rightarrow> nat \<Rightarrow> CHLPrjn option" where
  "DWtCHL_send lb slay rlay pj si =
     do {
       let sn = Neurons slay ! si;
       nc \<leftarrow> index (SConN (Prjn pj)) (int si);
       st \<leftarrow> index (SConIdxSt (Prjn pj)) (int si);
       syns \<leftarrow> slice (Syns (Prjn pj)) st (st + nc);
       scons \<leftarrow> slice (SConIdx (Prjn pj)) st (st + nc);
       let snActM = MinusAct (CHL pj) (ActM sn) (ActQ1 sn) (ActQ2 sn);
       let savgCor = CHLPrjn_SAvgCor pj slay;
       syns1 \<leftarrow> DWtCHL_syns lb pj sn snActM savgCor rlay scons syns;
       let syns2 = (if Learn_Norm_On (Prjn pj) then DWtCHL_norm syns1 else syns1);
       Some (pj\<lparr>Prjn := (Prjn pj)\<lparr>Syns := unslice (Syns (Prjn pj)) st syns2\<rparr>\<rparr>)
     }"

fun DWtCHL_loop :: "leabra \<Rightarrow> Layer \<Rightarrow> Layer \<Rightarrow> nat list \<Rightarrow> CHLPrjn \<Rightarrow> CHLPrjn option" where
  "DWtCHL_loop lb slay rlay [] pj = Some pj"
| "DWtCHL_loop lb slay rlay (si # sis) pj =
     do { pj' \<leftarrow> DWtCHL_send lb slay rlay pj si; DWtCHL_loop lb slay rlay sis pj' }"

text \<open>\<open>DWtCHL\<close> computes the weight change (learning) for CHL.\<close>

definition DWtCHL :: "leabra \<Rightarrow> CHLPrjn \<Rightarrow> Layer \<Rightarrow> Layer \<Rightarrow> CHLPrjn option" where
  "DWtCHL lb pj slay rlay =
     (if Pool0_ActP_Avg slay < SAvgThr (CHL pj) then Some pj
      else DWtCHL_loop lb slay rlay [0..<length (Neurons slay)] pj)"

text \<open>\<open>DWt\<close> computes the weight change (learning); the CHL version is used if \<open>On\<close>.\<close>

definition CHLPrjn_DWt :: "leabra \<Rightarrow> CHLPrjn \<Rightarrow> Layer \<Rightarrow> Layer \<Rightarrow> CHLPrjn option" where
  "CHLPrjn_DWt lb pj slay rlay =
     (if \<not> Learn_Learn (Prjn pj) then Some pj
      else if On (CHL pj) then DWtCHL lb pj slay rlay
      else map_option (\<lambda>p. pj\<lparr>Prjn := p\<rparr>) (Prjn_DWt lb (Prjn pj) slay rlay))"

section \<open>Memory statistics\<close>

text \<open>
  \<open>Sim.MemStats\<close> counts in \<open>float64\<close> and divides counts by counts. A count is a
  non-negative whole number, so a division by zero is \<open>0/0\<close> or a positive count over
  0; Go does not panic there, the quotient is NaN or an infinity, and every comparison
  with NaN is false.
\<close>

type_synonym float64 = real

datatype f64 = Fin float64 | PInf | NInf | NaN

definition fdiv :: "float64 \<Rightarrow> float64 \<Rightarrow> f64" where
  "fdiv x y =
     (if y \<noteq> 0 then Fin (x / y)
      else if x = 0 then NaN
      else if x > 0 then PInf else NInf)"

fun flt :: "f64 \<Rightarrow> float64 \<Rightarrow> bool" where
  "flt (Fin x) y = (x < y)"
| "flt NInf y = True"
| "flt PInf y = False"
| "flt NaN y = False"

record MemCounts =
  trgOnWasOffAll :: float64
  trgOnWasOffCmp :: float64
  trgOffWasOn :: float64
  cmpN :: float64
  trgOnN :: float64
  trgOffN :: float64

definition MemCounts0 :: MemCounts where
  "MemCounts0 = \<lparr>trgOnWasOffAll = 0, trgOnWasOffCmp = 0, trgOffWasOn = 0,
                  cmpN = 0, trgOnN = 0, trgOffN = 0\<rparr>"

text \<open>The body of the loop over the units, for one unit's three values.\<close>

definition MemStats_unit :: "float32 \<Rightarrow> float32 \<Rightarrow> float32 \<Rightarrow> MemCounts \<Rightarrow> MemCounts" where
  "MemStats_unit actm trg inact c =
     (if trg < 0.5
      then (let c = c\<lparr>trgOffN := trgOffN c + 1\<rparr>
            in if actm > 0.5 then c\<lparr>trgOffWasOn := trgOffWasOn c + 1\<rparr> else c)
      else (let c = c\<lparr>trgOnN := trgOnN c + 1\<rparr>
            in if inact < 0.5
               then (let c = c\<lparr>cmpN := cmpN c + 1\<rparr>
                     in if actm < 0.5
                        then c\<lparr>trgOnWasOffAll := trgOnWasOffAll c + 1,
                               trgOnWasOffCmp := trgOnWasOffCmp c + 1\<rparr>
                        else c)
               else (if actm < 0.5 then c\<lparr>trgOnWasOffAll := trgOnWasOffAll c + 1\<rparr> else c)))"

text \<open>
  The values that \<open>MemStats\<close> reads from the network through leabra's \<open>UnitVal1D\<close>,
  by unit index: \<open>ActM\<close> and \<open>Targ\<close> of the layer named Output, \<open>ActQ1\<close> of ECin.
  Both layers are taken to have the 98 units read.
\<close>

record MemUnits =
  Output_ActM :: "nat \<Rightarrow> float32"
  Output_Targ :: "nat \<Rightarrow> float32"
  ECin_ActQ1 :: "nat \<Rightarrow> float32"

definition MemStats_units :: "MemUnits \<Rightarrow> nat list \<Rightarrow> MemCounts \<Rightarrow> MemCounts" where
  "MemStats_units u nis c =
     fold (\<lambda>ni. MemStats_unit (Output_ActM u ni) (Output_Targ u ni) (ECin_ActQ1 u ni)) nis c"

text \<open>The statistics fields of \<open>Sim\<close> and the threshold.\<close>

record MemSim =
  MemThr :: float64
  Mem :: float64
  TrgOnWasOffAll :: f64
  TrgOnWasOffCmp :: f64
  TrgOffWasOn :: f64

definition MemStats :: "bool \<Rightarrow> MemUnits \<Rightarrow> MemSim \<Rightarrow> MemSim" where
  "MemStats train u ss =
     (let c = MemStats_units u [0..<2 * 49] MemCounts0;
          all = fdiv (trgOnWasOffAll c) (trgOnN c);
          off = fdiv (trgOffWasOn c) (trgOffN c);
          (ss1, cmp) =
            (if train
             then (if flt all (MemThr ss) \<and> flt off (MemThr ss)
                   then ss\<lparr>Mem := 1\<rparr> else ss\<lparr>Mem := 0\<rparr>, Fin (trgOnWasOffCmp c))
             else (if cmpN c > 0
                   then (let cmp = fdiv (trgOnWasOffCmp c) (cmpN c)
                         in (if flt cmp (MemThr ss) \<and> flt off (MemThr ss)
                             then ss\<lparr>Mem := 1\<rparr> else ss\<lparr>Mem := 0\<rparr>, cmp))
                   else (ss, Fin (trgOnWasOffCmp c))))
      in ss1\<lparr>TrgOnWasOffAll := all, TrgOnWasOffCmp := cmp, TrgOffWasOn := off\<rparr>)"

section \<open>Running the network\<close>

text \<open>
  The alpha-cycle functions drive leabra's network. Of the simulation's state, the
  model keeps what these functions themselves assign: per layer the \<open>Off\<close> flag, per
  projection \<open>Learn.Learn\<close>, \<open>WtScale.Abs\<close> and \<open>WtScale.Rel\<close>, and the parameters
  they read. A projection is named by its receiving and its sending layer, as
  \<open>recv.RcvPrjns.SendName(send)\<close> finds it. Every call into leabra and every call
  of \<open>MemStats\<close> and \<open>CA3COR\<close> is recorded, in order, in \<open>Calls\<close>: leabra owns the
  activations and the synapses; it is taken to read the fields above without
  assigning them, and nothing it returns steers these functions. Display refresh and log writes
  (\<open>UpdateView\<close>, \<open>LogTstCyc\<close>, \<open>TstCycPlot\<close>) only observe and are left out.
\<close>

datatype LayerType = Target | Compare

datatype call =
    Net_WtFmDWt
  | Net_DWt
  | Net_AlphaCycInit
  | Net_Cycle
  | Net_GScaleFmAvgAct
  | Net_InitGInc
  | Net_QuarterFinal
  | Time_AlphaCycStart
  | Time_CycleInc
  | Time_QuarterInc
  | Layer_SetType string LayerType
  | Layer_UpdateExtFlags string
  | Layer_UnitVals string
  | Layer_ApplyExt1D32 string
  | Layer_UnitValsTensor string
  | TrainNoise_SetCellTensor string
  | Sim_MemStats bool
  | Sim_CA3COR

record PrjnPar =
  Learn :: bool
  WtScale_Abs :: float32
  WtScale_Rel :: float32

record Sim =
  Net_Layers :: "string set"
  Net_Prjns :: "(string \<times> string) set"
  Layer_Off :: "string \<Rightarrow> bool"
  Net_Prjn :: "string \<times> string \<Rightarrow> PrjnPar"
  Hip_MossyDel :: float32
  Hip_MossyDelTest :: float32
  Hiponly :: bool
  Record :: bool
  Time_CycPerQtr :: int
  Calls :: "call list"

text \<open>
  \<open>Net.LayerByName(nm)\<close> and \<open>RcvPrjns.SendName(nm)\<close> return nil for a name the
  network does not have, and the type assertion that follows every use here panics
  on nil. Each function looks its layers and projections up before its first cycle,
  and no assignment adds or removes one, so a function panics exactly when one of the
  names it looks up is missing.
\<close>

definition has_names :: "Sim \<Rightarrow> string list \<Rightarrow> (string \<times> string) list \<Rightarrow> bool" where
  "has_names ss ls ps = (list_all (\<lambda>l. l \<in> Net_Layers ss) ls \<and> list_all (\<lambda>p. p \<in> Net_Prjns ss) ps)"

abbreviation ca1FmECin :: "string \<times> string" where "ca1FmECin \<equiv> (''CA1'', ''ECin'')"
abbreviation ca1FmCa3 :: "string \<times> string" where "ca1FmCa3 \<equiv> (''CA1'', ''CA3'')"
abbreviation ca3FmDg :: "string \<times> string" where "ca3FmDg \<equiv> (''CA3'', ''DG'')"
abbreviation outputFmCortex :: "string \<times> string" where "outputFmCortex \<equiv> (''Output'', ''Cortex'')"
abbreviation ecoutFmCa1 :: "string \<times> string" where "ecoutFmCa1 \<equiv> (''ECout'', ''CA1'')"
abbreviation ca1FmECout :: "string \<times> string" where "ca1FmECout \<equiv> (''CA1'', ''ECout'')"
abbreviation dgFmECin :: "string \<times> string" where "dgFmECin \<equiv> (''DG'', ''ECin'')"
abbreviation ca3FmECin :: "string \<times> string" where "ca3FmECin \<equiv> (''CA3'', ''ECin'')"
abbreviation ca3FmCa3 :: "string \<times> string" where "ca3FmCa3 \<equiv> (''CA3'', ''CA3'')"
abbreviation autohidFmAutoin :: "string \<times> string" where "autohidFmAutoin \<equiv> (''Autohid'', ''Autoin'')"
abbreviation autoFmAutohid :: "string \<times> string" where "autoFmAutohid \<equiv> (''Auto'', ''Autohid'')"
abbreviation autohidFmAuto :: "string \<times> string" where "autohidFmAuto \<equiv> (''Autohid'', ''Auto'')"
abbreviation autohidFmECout :: "string \<times> string" where "autohidFmECout \<equiv> (''Autohid'', ''ECout'')"

text \<open>The statements: an assignment to a field, or a recorded call.\<close>

definition set_Learn :: "string \<times> string \<Rightarrow> bool \<Rightarrow> Sim \<Rightarrow> Sim" where
  "set_Learn pj b ss = ss\<lparr>Net_Prjn := (Net_Prjn ss)(pj := (Net_Prjn ss pj)\<lparr>Learn := b\<rparr>)\<rparr>"

definition set_Abs :: "string \<times> string \<Rightarrow> float32 \<Rightarrow> Sim \<Rightarrow> Sim" where
  "set_Abs pj v ss = ss\<lparr>Net_Prjn := (Net_Prjn ss)(pj := (Net_Prjn ss pj)\<lparr>WtScale_Abs := v\<rparr>)\<rparr>"

definition set_Rel :: "string \<times> string \<Rightarrow> float32 \<Rightarrow> Sim \<Rightarrow> Sim" where
  "set_Rel pj v ss = ss\<lparr>Net_Prjn := (Net_Prjn ss)(pj := (Net_Prjn ss pj)\<lparr>WtScale_Rel := v\<rparr>)\<rparr>"

definition set_Off :: "string \<Rightarrow> bool \<Rightarrow> Sim \<Rightarrow> Sim" where
  "set_Off ly b ss = ss\<lparr>Layer_Off := (Layer_Off ss)(ly := b)\<rparr>"

definition call :: "call \<Rightarrow> Sim \<Rightarrow> Sim" where
  "call c ss = ss\<lparr>Calls := Calls ss @ [c]\<rparr>"

text \<open>Statements in sequence; a statement under a condition; the loop \<open>for i := 0; i < n; i++\<close>.\<close>

definition seq :: "('s \<Rightarrow> 's) list \<Rightarrow> 's \<Rightarrow> 's" where
  "seq stmts s = fold (\<lambda>stmt. stmt) stmts s"

definition if_do :: "bool \<Rightarrow> ('s \<Rightarrow> 's) \<Rightarrow> 's \<Rightarrow> 's" where
  "if_do b stmt s = (if b then stmt s else s)"

definition for_lt :: "int \<Rightarrow> (int \<Rightarrow> 's \<Rightarrow> 's) \<Rightarrow> 's \<Rightarrow> 's" where
  "for_lt n body s = fold body (map int [0..<nat n]) s"

subsection \<open>AlphaCyc\<close>

text \<open>
  \<open>AlphaCyc\<close> runs one alpha-cycle (100 msec, 4 quarters) of processing. It is
  split where the claims look at the state: \<open>AlphaCyc_begin\<close> is the code before the
  loop over the quarters and returns the local \<open>dgwtscale\<close> with the state,
  \<open>AlphaCyc_qtr\<close> is the body of that loop, \<open>AlphaCyc_end\<close> the code after it.
\<close>

definition AlphaCyc_begin :: "bool \<Rightarrow> Sim \<Rightarrow> Sim \<times> float32" where
  "AlphaCyc_begin train ss =
     (let ss1 = seq [
            if_do train (call Net_WtFmDWt),
            set_Learn ecoutFmCa1 True,
            set_Learn ca1FmECin True,
            set_Learn ca1FmECout True,
            set_Learn dgFmECin True,
            set_Learn ca3FmECin True,
            set_Learn ca3FmDg True,
            set_Learn ca1FmCa3 True,
            set_Learn ca3FmCa3 True,
            set_Learn autohidFmAutoin False,
            set_Learn autoFmAutohid False,
            set_Learn autohidFmAuto False,
            set_Abs ca1FmECin 1,
            set_Abs ca1FmCa3 0,
            (if Hiponly ss then set_Rel outputFmCortex 0 else set_Rel outputFmCortex 0.5),
            set_Off ''CA1'' False,
            set_Off ''CA3'' False,
            set_Off ''DG'' False,
            set_Off ''ECin'' False,
            set_Off ''Cortex'' False] ss;
          dgwtscale = WtScale_Rel (Net_Prjn ss1 ca3FmDg);
          ss2 = seq [
            set_Rel ca3FmDg (dgwtscale - Hip_MossyDel ss1),
            (if train
             then seq [call (Layer_SetType ''ECout'' Target), call (Layer_SetType ''Output'' Target)]
             else seq [call (Layer_SetType ''ECout'' Compare), call (Layer_SetType ''Output'' Target)]),
            call (Layer_UpdateExtFlags ''ECout''),
            call (Layer_UpdateExtFlags ''Output''),
            call Net_AlphaCycInit,
            call Time_AlphaCycStart] ss1
      in (ss2, dgwtscale))"

definition AlphaCyc_qtr :: "bool \<Rightarrow> float32 \<Rightarrow> int \<Rightarrow> Sim \<Rightarrow> Sim" where
  "AlphaCyc_qtr train dgwtscale qtr ss =
     seq [
       for_lt (Time_CycPerQtr ss) (\<lambda>cyc. seq [call Net_Cycle, call Time_CycleInc]),
       if_do (qtr + 1 = 1) (seq [
         set_Abs ca1FmECin 0,
         set_Abs ca1FmCa3 1,
         (if train then set_Rel ca3FmDg dgwtscale
          else set_Rel ca3FmDg (dgwtscale - Hip_MossyDelTest ss)),
         call Net_GScaleFmAvgAct,
         call Net_InitGInc]),
       if_do (qtr + 1 = 3) (seq [
         set_Abs ca1FmECin 1,
         set_Abs ca1FmCa3 0,
         call Net_GScaleFmAvgAct,
         call Net_InitGInc,
         if_do (\<not> train \<and> Record ss) (seq [
           call (Layer_UnitValsTensor ''ECout''),
           call (TrainNoise_SetCellTensor ''Autoin'')]),
         if_do train (seq [
           call (Layer_UnitVals ''ECin''),
           call (Layer_ApplyExt1D32 ''ECout''),
           call (Layer_ApplyExt1D32 ''Output'')])]),
       call Net_QuarterFinal,
       if_do (qtr + 1 = 3) (call (Sim_MemStats train)),
       if_do (qtr + 1 = 4) (call Sim_CA3COR),
       call Time_QuarterInc] ss"

definition AlphaCyc_end :: "bool \<Rightarrow> float32 \<Rightarrow> Sim \<Rightarrow> Sim" where
  "AlphaCyc_end train dgwtscale ss =
     seq [
       set_Rel ca3FmDg dgwtscale,
       set_Abs ca1FmCa3 1,
       if_do train (call Net_DWt)] ss"

definition AlphaCyc_run :: "bool \<Rightarrow> Sim \<Rightarrow> Sim" where
  "AlphaCyc_run train ss =
     (let (ss1, dgwtscale) = AlphaCyc_begin train ss;
          ss2 = for_lt 4 (AlphaCyc_qtr train dgwtscale) ss1
      in AlphaCyc_end train dgwtscale ss2)"

definition AlphaCyc :: "bool \<Rightarrow> Sim \<Rightarrow> Sim option" where
  "AlphaCyc train ss =
     (if has_names ss
           [''CA1'', ''CA3'', ''Input'', ''Output'', ''ECin'', ''ECout'', ''Cortex'', ''DG'',
            ''Autohid'', ''Auto'']
           [ca1FmECin, ca1FmCa3, ca3FmDg, outputFmCortex, ecoutFmCa1, ca1FmECout, dgFmECin,
            ca3FmECin, ca3FmCa3, autohidFmAutoin, autoFmAutohid, autohidFmAuto]
      then Some (AlphaCyc_run train ss) else None)"

subsection \<open>AlphaCycPreTrain\<close>

definition AlphaCycPreTrain_begin :: "bool \<Rightarrow> Sim \<Rightarrow> Sim \<times> float32" where
  "AlphaCycPreTrain_begin train ss =
     (let ss1 = seq [
            if_do train (call Net_WtFmDWt),
            set_Learn ecoutFmCa1 True,
            set_Learn ca1FmECin True,
            set_Learn ca1FmECout True,
            set_Learn dgFmECin True,
            set_Learn ca3FmECin True,
            set_Abs ca1FmECin 1,
            set_Abs ca1FmCa3 0,
            set_Learn ca3FmDg True,
            set_Learn ca1FmCa3 True,
            set_Learn ca3FmCa3 True,
            set_Off ''CA1'' False,
            set_Off ''CA3'' True,
            set_Off ''DG'' True,
            set_Off ''ECin'' False,
            set_Off ''Cortex'' True] ss;
          dgwtscale = WtScale_Rel (Net_Prjn ss1 ca3FmDg);
          ss2 = seq [
            set_Rel ca3FmDg (dgwtscale - Hip_MossyDel ss1),
            (if train then call (Layer_SetType ''ECout'' Target)
             else call (Layer_SetType ''ECout'' Compare)),
            call (Layer_UpdateExtFlags ''ECout''),
            call Net_AlphaCycInit,
            call Time_AlphaCycStart] ss1
      in (ss2, dgwtscale))"

definition AlphaCycPreTrain_qtr :: "bool \<Rightarrow> float32 \<Rightarrow> int \<Rightarrow> Sim \<Rightarrow> Sim" where
  "AlphaCycPreTrain_qtr train dgwtscale qtr ss =
     seq [
       for_lt (Time_CycPerQtr ss) (\<lambda>cyc. seq [call Net_Cycle, call Time_CycleInc]),
       if_do (qtr + 1 = 1) (seq [
         set_Abs ca1FmECin 0,
         set_Abs ca1FmCa3 1,
         (if train then set_Rel ca3FmDg dgwtscale
          else set_Rel ca3FmDg (dgwtscale - Hip_MossyDelTest ss)),
         call Net_GScaleFmAvgAct,
         call Net_InitGInc]),
       if_do (qtr + 1 = 3) (seq [
         set_Abs ca1FmECin 1,
         set_Abs ca1FmCa3 0,
         call Net_GScaleFmAvgAct,
         call Net_InitGInc,
         if_do train (seq [
           call (Layer_UnitVals ''ECin''),
           call (Layer_ApplyExt1D32 ''ECout'')])]),
       call Net_QuarterFinal,
       if_do (qtr + 1 = 3) (call (Sim_MemStats train)),
       if_do (qtr + 1 = 4) (call Sim_CA3COR),
       call Time_QuarterInc] ss"

definition AlphaCycPreTrain_run :: "bool \<Rightarrow> Sim \<Rightarrow> Sim" where
  "AlphaCycPreTrain_run train ss =
     (let (ss1, dgwtscale) = AlphaCycPreTrain_begin train ss;
          ss2 = for_lt 4 (AlphaCycPreTrain_qtr train dgwtscale) ss1
      in seq [
           set_Rel ca3FmDg dgwtscale,
           set_Abs ca1FmCa3 1,
           if_do train (call Net_DWt)] ss2)"

definition AlphaCycPreTrain :: "bool \<Rightarrow> Sim \<Rightarrow> Sim option" where
  "AlphaCycPreTrain train ss =
     (if has_names ss
           [''CA1'', ''CA3'', ''Input'', ''ECin'', ''ECout'', ''Cortex'', ''DG'']
           [ca1FmECin, ca1FmCa3, ca3FmDg, ecoutFmCa1, ca1FmECout, dgFmECin, ca3FmECin, ca3FmCa3]
      then Some (AlphaCycPreTrain_run train ss) else None)"

subsection \<open>AlphaCycRP\<close>

text \<open>
  Here and in \<open>AlphaCycRPAE\<close> the number of cycles of a quarter is the local
  \<open>CycPerQtr\<close>, which the loop over the quarters assigns; the loop's state is that
  local with the simulation.
\<close>

definition AlphaCycRP_begin :: "bool \<Rightarrow> Sim \<Rightarrow> Sim \<times> float32" where
  "AlphaCycRP_begin train ss =
     (let ss1 = seq [
            if_do train (call Net_WtFmDWt),
            set_Learn ecoutFmCa1 False,
            set_Learn ca1FmECin False,
            set_Learn ca1FmECout False,
            set_Learn dgFmECin True,
            set_Learn ca3FmECin True,
            set_Learn ca3FmDg True,
            set_Learn ca1FmCa3 True,
            set_Learn ca3FmCa3 True,
            set_Learn autohidFmAutoin False,
            set_Learn autoFmAutohid False,
            set_Learn autohidFmAuto False,
            set_Abs ca1FmECin 1,
            set_Abs ca1FmCa3 0,
            set_Abs autohidFmAutoin 1,
            set_Off ''CA1'' False,
            set_Off ''CA3'' False,
            set_Off ''DG'' False,
            set_Off ''ECin'' False,
            set_Off ''Cortex'' False] ss;
          dgwtscale = WtScale_Rel (Net_Prjn ss1 ca3FmDg);
          ss2 = seq [
            set_Rel ca3FmDg (dgwtscale - Hip_MossyDel ss1),
            (if train
             then seq [call (Layer_SetType ''ECout'' Target), call (Layer_UpdateExtFlags ''ECout''),
                       call (Layer_SetType ''Output'' Target), call (Layer_UpdateExtFlags ''Output'')]
             else seq [call (Layer_SetType ''ECout'' Compare), call (Layer_UpdateExtFlags ''ECout''),
                       call (Layer_SetType ''Output'' Compare), call (Layer_UpdateExtFlags ''Output'')]),
            call Net_AlphaCycInit,
            call Time_AlphaCycStart] ss1
      in (ss2, dgwtscale))"

definition AlphaCycRP_qtr :: "bool \<Rightarrow> float32 \<Rightarrow> int \<Rightarrow> int \<times> Sim \<Rightarrow> int \<times> Sim" where
  "AlphaCycRP_qtr train dgwtscale qtr st =
     (let (CycPerQtr, ss) = st;
          ss1 = for_lt CycPerQtr (\<lambda>cyc. seq [
                  call Net_Cycle,
                  if_do (train \<and> qtr = 2 \<and> cyc = 25) (seq [
                    call (Layer_UnitVals ''ECout''),
                    call (Layer_ApplyExt1D32 ''Autoin'')]),
                  call Time_CycleInc]) ss;
          (CycPerQtr, ss2) =
            (if qtr + 1 = 1 then
               (25, seq [
                  set_Abs ca1FmECin 0,
                  set_Abs ca1FmCa3 1,
                  (if train then set_Rel ca3FmDg (dgwtscale - Hip_MossyDelTest ss1)
                   else set_Rel ca3FmDg (dgwtscale - Hip_MossyDelTest ss1)),
                  call Net_GScaleFmAvgAct,
                  call Net_InitGInc] ss1)
             else if qtr + 1 = 2 then (100, ss1)
             else if qtr + 1 = 3 then
               (Time_CycPerQtr ss1, seq [
                  set_Abs ca1FmECin 0,
                  set_Abs ca1FmCa3 1,
                  call Net_GScaleFmAvgAct,
                  call Net_InitGInc,
                  if_do train (seq [
                    call (Layer_UnitVals ''ECout''),
                    call (Layer_ApplyExt1D32 ''Output''),
                    call (Layer_UnitVals ''Auto''),
                    call (Layer_ApplyExt1D32 ''ECout'')])] ss1)
             else (CycPerQtr, ss1))
      in (CycPerQtr, seq [
            call Net_QuarterFinal,
            if_do (qtr + 1 = 3) (call (Sim_MemStats train)),
            call Time_QuarterInc] ss2))"

definition AlphaCycRP_run :: "bool \<Rightarrow> Sim \<Rightarrow> Sim" where
  "AlphaCycRP_run train ss =
     (let (ss1, dgwtscale) = AlphaCycRP_begin train ss;
          (CycPerQtr, ss2) = for_lt 4 (AlphaCycRP_qtr train dgwtscale) (Time_CycPerQtr ss1, ss1)
      in seq [
           set_Rel ca3FmDg dgwtscale,
           set_Abs ca1FmCa3 1,
           if_do train (call Net_DWt)] ss2)"

definition AlphaCycRP :: "bool \<Rightarrow> Sim \<Rightarrow> Sim option" where
  "AlphaCycRP train ss =
     (if has_names ss
           [''CA1'', ''CA3'', ''Input'', ''Output'', ''Autoin'', ''ECin'', ''ECout'', ''DG'',
            ''Autohid'', ''Auto'', ''Cortex'']
           [ca1FmECin, ca1FmCa3, ca3FmDg, ecoutFmCa1, ca1FmECout, dgFmECin, ca3FmECin, ca3FmCa3,
            autohidFmAutoin, autoFmAutohid, autohidFmAuto]
      then Some (AlphaCycRP_run train ss) else None)"

subsection \<open>AlphaCycRPAE\<close>

definition AlphaCycRPAE_begin :: "bool \<Rightarrow> Sim \<Rightarrow> Sim \<times> float32" where
  "AlphaCycRPAE_begin train ss =
     (let ss1 = seq [
            if_do train (call Net_WtFmDWt),
            set_Learn ecoutFmCa1 False,
            set_Learn ca1FmECin False,
            set_Learn ca1FmECout False,
            set_Learn dgFmECin False,
            set_Learn ca3FmECin False,
            set_Learn ca3FmDg False,
            set_Learn ca1FmCa3 False,
            set_Learn ca3FmCa3 False,
            set_Learn autohidFmECout True,
            set_Learn autoFmAutohid True,
            set_Learn autohidFmAuto True,
            set_Abs ca1FmECin 1,
            set_Abs ca1FmCa3 0,
            set_Abs autohidFmECout 0,
            set_Off ''CA1'' False,
            set_Off ''CA3'' False,
            set_Off ''DG'' False,
            set_Off ''ECin'' False,
            set_Off ''Cortex'' False] ss;
          dgwtscale = WtScale_Rel (Net_Prjn ss1 ca3FmDg);
          ss2 = seq [
            set_Rel ca3FmDg (dgwtscale - Hip_MossyDel ss1),
            (if train
             then seq [call (Layer_SetType ''ECout'' Compare), call (Layer_UpdateExtFlags ''ECout''),
                       call (Layer_SetType ''Output'' Compare), call (Layer_UpdateExtFlags ''Output'')]
             else seq [call (Layer_SetType ''ECout'' Compare), call (Layer_UpdateExtFlags ''ECout''),
                       call (Layer_SetType ''Output'' Compare), call (Layer_UpdateExtFlags ''Output'')]),
            call Net_AlphaCycInit,
            call Time_AlphaCycStart] ss1
      in (ss2, dgwtscale))"

definition AlphaCycRPAE_qtr :: "bool \<Rightarrow> float32 \<Rightarrow> int \<Rightarrow> int \<times> Sim \<Rightarrow> int \<times> Sim" where
  "AlphaCycRPAE_qtr train dgwtscale qtr st =
     (let (CycPerQtr, ss) = st;
          ss1 = for_lt CycPerQtr (\<lambda>cyc. seq [call Net_Cycle, call Time_CycleInc]) ss;
          (CycPerQtr, ss2) =
            (if qtr + 1 = 1 then
               (50, seq [
                  set_Abs ca1FmECin 0,
                  set_Abs ca1FmCa3 1,
                  (if train then set_Rel ca3FmDg (dgwtscale - Hip_MossyDelTest ss1)
                   else set_Rel ca3FmDg (dgwtscale - Hip_MossyDelTest ss1)),
                  call Net_GScaleFmAvgAct,
                  call Net_InitGInc] ss1)
             else if qtr + 1 = 2 then
               (75, seq [
                  set_Abs autohidFmECout 1,
                  call Net_GScaleFmAvgAct,
                  call Net_InitGInc] ss1)
             else if qtr + 1 = 3 then
               (Time_CycPerQtr ss1, seq [
                  set_Abs ca1FmECin 0,
                  set_Abs ca1FmCa3 1,
                  call Net_GScaleFmAvgAct,
                  call Net_InitGInc] ss1)
             else (CycPerQtr, ss1))
      in (CycPerQtr, seq [
            call Net_QuarterFinal,
            if_do (qtr + 1 = 3) (call (Sim_MemStats train)),
            call Time_QuarterInc] ss2))"

definition AlphaCycRPAE_run :: "bool \<Rightarrow> Sim \<Rightarrow> Sim" where
  "AlphaCycRPAE_run train ss =
     (let (ss1, dgwtscale) = AlphaCycRPAE_begin train ss;
          (CycPerQtr, ss2) = for_lt 4 (AlphaCycRPAE_qtr train dgwtscale) (Time_CycPerQtr ss1, ss1)
      in seq [
           set_Rel ca3FmDg dgwtscale,
           set_Abs ca1FmCa3 1,
           if_do train (call Net_DWt)] ss2)"

definition AlphaCycRPAE :: "bool \<Rightarrow> Sim \<Rightarrow> Sim option" where
  "AlphaCycRPAE train ss =
     (if has_names ss
           [''CA1'', ''CA3'', ''Input'', ''Output'', ''ECin'', ''ECout'', ''DG'', ''Autohid'',
            ''Auto'', ''Cortex'']
           [ca1FmECin, ca1FmCa3, ca3FmDg, ecoutFmCa1, ca1FmECout, dgFmECin, ca3FmECin, ca3FmCa3,
            autohidFmECout, autoFmAutohid, autohidFmAuto]
      then Some (AlphaCycRPAE_run train ss) else None)"

subsection \<open>AlphaCycRestudy\<close>

definition AlphaCycRestudy_begin :: "bool \<Rightarrow> Sim \<Rightarrow> Sim \<times> float32" where
  "AlphaCycRestudy_begin train ss =
     (let ss1 = seq [
            if_do train (call Net_WtFmDWt),
            set_Learn ecoutFmCa1 False,
            set_Learn ca1FmECin False,
            set_Learn ca1FmECout False,
            set_Learn dgFmECin True,
            set_Learn ca3FmECin True,
            set_Learn ca3FmDg True,
            set_Learn ca1FmCa3 True,
            set_Learn ca3FmCa3 True,
            set_Abs ca1FmECin 1,
            set_Abs ca1FmCa3 0,
            set_Off ''CA1'' False,
            set_Off ''CA3'' False,
            set_Off ''DG'' False,
            set_Off ''ECin'' False,
            set_Off ''Autoencoder'' True,
            set_Off ''Cortex'' True] ss;
          dgwtscale = WtScale_Rel (Net_Prjn ss1 ca3FmDg);
          ss2 = seq [
            set_Rel ca3FmDg (dgwtscale - Hip_MossyDel ss1),
            (if train then call (Layer_SetType ''ECout'' Target)
             else call (Layer_SetType ''ECout'' Compare)),
            call (Layer_UpdateExtFlags ''ECout''),
            call Net_AlphaCycInit,
            call Time_AlphaCycStart] ss1
      in (ss2, dgwtscale))"

definition AlphaCycRestudy_qtr :: "bool \<Rightarrow> float32 \<Rightarrow> int \<Rightarrow> Sim \<Rightarrow> Sim" where
  "AlphaCycRestudy_qtr train dgwtscale qtr ss =
     seq [
       for_lt (Time_CycPerQtr ss) (\<lambda>cyc. seq [call Net_Cycle, call Time_CycleInc]),
       if_do (qtr + 1 = 1) (seq [
         set_Abs ca1FmECin 0,
         set_Abs ca1FmCa3 1,
         (if train then set_Rel ca3FmDg dgwtscale
          else set_Rel ca3FmDg (dgwtscale - Hip_MossyDelTest ss)),
         call Net_GScaleFmAvgAct,
         call Net_InitGInc]),
       if_do (qtr + 1 = 3) (seq [
         set_Abs ca1FmECin 1,
         set_Abs ca1FmCa3 0,
         call Net_GScaleFmAvgAct,
         call Net_InitGInc,
         if_do train (seq [
           call (Layer_UnitVals ''ECin''),
           call (Layer_ApplyExt1D32 ''ECout'')])]),
       call Net_QuarterFinal,
       if_do (qtr + 1 = 3) (call (Sim_MemStats train)),
       if_do (qtr + 1 = 4) (call Sim_CA3COR),
       call Time_QuarterInc] ss"

definition AlphaCycRestudy_run :: "bool \<Rightarrow> Sim \<Rightarrow> Sim" where
  "AlphaCycRestudy_run train ss =
     (let (ss1, dgwtscale) = AlphaCycRestudy_begin train ss;
          ss2 = for_lt 4 (AlphaCycRestudy_qtr train dgwtscale) ss1
      in seq [
           set_Rel ca3FmDg dgwtscale,
           set_Abs ca1FmCa3 1,
           if_do train (call Net_DWt)] ss2)"

definition AlphaCycRestudy :: "bool \<Rightarrow> Sim \<Rightarrow> Sim option" where
  "AlphaCycRestudy train ss =
     (if has_names ss
           [''CA1'', ''CA3'', ''Input'', ''ECin'', ''ECout'', ''DG'', ''Autoencoder'', ''Cortex'']
           [ca1FmECin, ca1FmCa3, ca3FmDg, ecoutFmCa1, ca1FmECout, dgFmECin, ca3FmECin, ca3FmCa3]
      then Some (AlphaCycRestudy_run train ss) else None)"

subsection \<open>AlphaCycAE\<close>

definition AlphaCycAE_qtr :: "bool \<Rightarrow> int \<Rightarrow> int \<times> Sim \<Rightarrow> int \<times> Sim" where
  "AlphaCycAE_qtr train qtr st =
     (let (CycPerQtr, ss) = st
      in (CycPerQtr, seq [
            for_lt CycPerQtr (\<lambda>cyc. seq [call Net_Cycle, call Time_CycleInc]),
            call Net_QuarterFinal,
            if_do (qtr + 1 = 3) (call (Sim_MemStats True)),
            call Time_QuarterInc] ss))"

definition AlphaCycAE_run :: "bool \<Rightarrow> Sim \<Rightarrow> Sim" where
  "AlphaCycAE_run train ss =
     (let ss1 = seq [
            if_do train (call Net_WtFmDWt),
            set_Learn ecoutFmCa1 False,
            set_Learn ca1FmECin False,
            set_Learn ca1FmECout False,
            set_Learn dgFmECin False,
            set_Learn ca3FmECin False,
            set_Learn ca3FmDg False,
            set_Learn ca1FmCa3 False,
            set_Learn ca3FmCa3 False,
            set_Learn autohidFmAutoin True,
            set_Learn autoFmAutohid True,
            set_Learn autohidFmAuto True,
            set_Off ''CA1'' True,
            set_Off ''CA3'' True,
            set_Off ''DG'' True,
            set_Off ''ECin'' True,
            set_Off ''Cortex'' True,
            set_Off ''Autohid'' False,
            set_Off ''Auto'' False,
            set_Off ''ECout'' False,
            call Net_AlphaCycInit,
            call Time_AlphaCycStart] ss;
          (CycPerQtr, ss2) = for_lt 4 (AlphaCycAE_qtr train) (Time_CycPerQtr ss1, ss1)
      in if_do train (call Net_DWt) ss2)"

definition AlphaCycAE :: "bool \<Rightarrow> Sim \<Rightarrow> Sim option" where
  "AlphaCycAE train ss =
     (if has_names ss
           [''CA1'', ''CA3'', ''Input'', ''ECin'', ''ECout'', ''Cortex'', ''DG'', ''Autohid'', ''Auto'']
           [ca1FmECin, ca1FmCa3, ca3FmDg, ecoutFmCa1, ca1FmECout, dgFmECin, ca3FmECin, ca3FmCa3,
            autohidFmAutoin, autoFmAutohid, autohidFmAuto]
      then Some (AlphaCycAE_run train ss) else None)"

section \<open>Notions used to state the properties\<close>

text \<open>
  The synapses of sending neuron \<open>si\<close> are those at the indices
  \<open>SConIdxSt[si] .. SConIdxSt[si] + SConN[si] - 1\<close>: \<open>in_cons pj si j\<close> says that \<open>j\<close>
  is one of them. \<open>syn_of\<close> is what \<open>DWtCHL\<close> makes of the synapse at index \<open>j\<close>,
  met as a synapse of \<open>si\<close>, and \<open>withSyns\<close> replaces the synapses of a projection.
\<close>

definition in_cons :: "CHLPrjn \<Rightarrow> nat \<Rightarrow> nat \<Rightarrow> bool" where
  "in_cons pj si j = (nat (SConIdxSt (Prjn pj) ! si) \<le> j
                     \<and> j < nat (SConIdxSt (Prjn pj) ! si) + nat (SConN (Prjn pj) ! si))"

definition syn_of :: "leabra \<Rightarrow> CHLPrjn \<Rightarrow> Layer \<Rightarrow> Layer \<Rightarrow> nat \<Rightarrow> nat \<Rightarrow> Synapse \<Rightarrow> Synapse" where
  "syn_of lb pj slay rlay si j sy =
     (let sn = Neurons slay ! si
      in DWtCHL_syn lb pj sn (MinusAct (CHL pj) (ActM sn) (ActQ1 sn) (ActQ2 sn))
           (CHLPrjn_SAvgCor pj slay) (Neurons rlay ! nat (SConIdx (Prjn pj) ! j)) sy)"

definition withSyns :: "CHLPrjn \<Rightarrow> Synapse list \<Rightarrow> CHLPrjn" where
  "withSyns pj S = pj\<lparr>Prjn := (Prjn pj)\<lparr>Syns := S\<rparr>\<rparr>"

text \<open>
  The connection arrays as leabra builds them: one count and one start per sending
  neuron, counts and starts not negative, the synapses of a sending neuron inside the
  synapse array and before those of every later sending neuron, a receiving index for
  every synapse, and every receiving index that of a receiving neuron.
\<close>

definition wf_cons :: "CHLPrjn \<Rightarrow> Layer \<Rightarrow> Layer \<Rightarrow> bool" where
  "wf_cons pj slay rlay =
     (let n = length (Neurons slay); p = Prjn pj
      in n \<le> length (SConN p) \<and> n \<le> length (SConIdxSt p)
         \<and> length (Syns p) \<le> length (SConIdx p)
         \<and> list_all (\<lambda>si. 0 \<le> SConN p ! si \<and> 0 \<le> SConIdxSt p ! si
                        \<and> SConIdxSt p ! si + SConN p ! si \<le> int (length (Syns p))) [0..<n]
         \<and> list_all (\<lambda>si. list_all (\<lambda>sj. SConIdxSt p ! si + SConN p ! si \<le> SConIdxSt p ! sj)
                              [Suc si..<n]) [0..<n]
         \<and> list_all (\<lambda>ri. 0 \<le> ri \<and> ri < int (length (Neurons rlay))) (SConIdx p))"

text \<open>A run of calls with no \<open>WtFmDWt\<close> and no \<open>DWt\<close> in it.\<close>

definition learn_free :: "call list \<Rightarrow> bool" where
  "learn_free tr = (Net_WtFmDWt \<notin> set tr \<and> Net_DWt \<notin> set tr)"

section \<open>Example values\<close>

text \<open>
  A projection from two sending to two receiving neurons, fully connected, with
  parameters that are binary fractions; leabra's methods are stand-ins that change
  nothing.
\<close>

definition lb_ex :: leabra where
  "lb_ex = \<lparr>Prjn_Defaults = (\<lambda>p. p), Prjn_UpdateParams = (\<lambda>p. p),
            Prjn_DWt = (\<lambda>p s r. Some p),
            NormFmAbsDWt = (\<lambda>n a. (n, 1)), MomentFmDWt = (\<lambda>m d. (m, d))\<rparr>"

definition slay_ex :: Layer where
  "slay_ex = \<lparr>Neurons = [\<lparr>ActM = 0, ActP = 1, ActQ1 = 0, ActQ2 = 0\<rparr>,
                         \<lparr>ActM = 1, ActP = 0, ActQ1 = 0, ActQ2 = 0\<rparr>],
              Pool0_ActP_Avg = 0.5, Pool0_ActPAvgEff = 0.5\<rparr>"

definition rlay_ex :: Layer where
  "rlay_ex = \<lparr>Neurons = [\<lparr>ActM = 0, ActP = 1, ActQ1 = 0, ActQ2 = 0\<rparr>,
                         \<lparr>ActM = 1, ActP = 1, ActQ1 = 0, ActQ2 = 0\<rparr>],
              Pool0_ActP_Avg = 0.5, Pool0_ActPAvgEff = 0.5\<rparr>"

definition sy_ex :: Synapse where
  "sy_ex = \<lparr>Wt = 0.5, LWt = 0.5, DWt = 0, Norm = 0, Moment = 0\<rparr>"

definition pj_ex :: CHLPrjn where
  "pj_ex = \<lparr>Prjn = \<lparr>Learn_Learn = True, Learn_Lrate = 0.5, Learn_Norm_On = False,
                     Learn_Momentum_On = False, Learn_WtBal_On = False,
                     Learn_WtSig_SoftBound = False,
                     SConN = [2, 2], SConIdxSt = [0, 2], SConIdx = [0, 1, 0, 1],
                     Syns = [sy_ex, sy_ex, sy_ex, sy_ex]\<rparr>,
            CHL = \<lparr>On = True, Hebb = 0.25, Err = 0.75, MinusQ1 = False, MinusQ2 = False,
                    SAvgCor = 0.5, SAvgThr = 0.125\<rparr>\<rparr>"

text \<open>
  Units for \<open>MemStats\<close>: every target on, every unit off in the minus phase and
  missing in ECin; and the statistics before the call, with the threshold \<open>New\<close> sets.
\<close>

definition u_cx :: MemUnits where
  "u_cx = \<lparr>Output_ActM = (\<lambda>ni. 0), Output_Targ = (\<lambda>ni. 1), ECin_ActQ1 = (\<lambda>ni. 0)\<rparr>"

definition ss_cx :: MemSim where
  "ss_cx = \<lparr>MemThr = 0.34, Mem = 0, TrgOnWasOffAll = Fin 0, TrgOnWasOffCmp = Fin 0,
            TrgOffWasOn = Fin 0\<rparr>"

text \<open>
  The network that \<open>ConfigNet\<close> builds, with the weight scales and learning flags
  of the "Base" parameter set, the hippocampus defaults and 25 cycles per quarter;
  and the same network with a layer Autoencoder and a projection from ECout to
  Autohid added, which \<open>AlphaCycRestudy\<close> and \<open>AlphaCycRPAE\<close> look up.
\<close>

definition Sim_ex :: Sim where
  "Sim_ex =
     \<lparr>Net_Layers = {''Input'', ''ECin'', ''ECout'', ''Auto'', ''Autoin'', ''Autohid'', ''CA1'',
                     ''DG'', ''CA3'', ''Output'', ''Cortex''},
      Net_Prjns = {(''ECin'', ''Input''), (''ECin'', ''ECout''), (''Output'', ''ECout''),
                   ca1FmECin, ecoutFmCa1, ca1FmECout, autoFmAutohid, autohidFmAuto,
                   autohidFmAutoin, (''Cortex'', ''Input''), outputFmCortex,
                   (''Cortex'', ''Output''), dgFmECin, ca3FmECin, ca3FmCa3, ca1FmCa3, ca3FmDg},
      Layer_Off = (\<lambda>l. False),
      Net_Prjn = (\<lambda>p. \<lparr>Learn = True, WtScale_Abs = 1, WtScale_Rel = 1\<rparr>)
        (ecoutFmCa1 := \<lparr>Learn = True, WtScale_Abs = 4, WtScale_Rel = 1\<rparr>,
         (''ECin'', ''Input'') := \<lparr>Learn = False, WtScale_Abs = 1, WtScale_Rel = 1\<rparr>,
         (''ECin'', ''ECout'') := \<lparr>Learn = False, WtScale_Abs = 1, WtScale_Rel = 0.5\<rparr>,
         (''Output'', ''ECout'') := \<lparr>Learn = False, WtScale_Abs = 1, WtScale_Rel = 0.5\<rparr>,
         ca3FmDg := \<lparr>Learn = False, WtScale_Abs = 1, WtScale_Rel = 4\<rparr>,
         ca3FmCa3 := \<lparr>Learn = True, WtScale_Abs = 1, WtScale_Rel = 0.1\<rparr>),
      Hip_MossyDel = 4, Hip_MossyDelTest = 3, Hiponly = False, Record = False,
      Time_CycPerQtr = 25, Calls = []\<rparr>"

definition Sim_all :: Sim where
  "Sim_all = Sim_ex\<lparr>Net_Layers := insert ''Autoencoder'' (Net_Layers Sim_ex),
                     Net_Prjns := insert autohidFmECout (Net_Prjns Sim_ex)\<rparr>"

section \<open>Properties of the CHL learning rule\<close>

subsection \<open>Auxiliary facts\<close>

lemma savg_ge_thr:
  "SAvgThr (CHL pj) \<le> max (SAvgThr (CHL pj))
                           (0.5 + SAvgCor (CHL pj) * (Pool0_ActPAvgEff slay - 0.5))"
  by simp



lemma withSyns_simps [simp]:
  "CHL (withSyns pj S) = CHL pj"
  "Syns (Prjn (withSyns pj S)) = S"
  "SConN (Prjn (withSyns pj S)) = SConN (Prjn pj)"
  "SConIdxSt (Prjn (withSyns pj S)) = SConIdxSt (Prjn pj)"
  "SConIdx (Prjn (withSyns pj S)) = SConIdx (Prjn pj)"
  "Learn_Norm_On (Prjn (withSyns pj S)) = Learn_Norm_On (Prjn pj)"
  "Learn_Momentum_On (Prjn (withSyns pj S)) = Learn_Momentum_On (Prjn pj)"
  "Learn_Lrate (Prjn (withSyns pj S)) = Learn_Lrate (Prjn pj)"
  "withSyns (withSyns pj S) S' = withSyns pj S'"
  "withSyns pj (Syns (Prjn pj)) = pj"
  "(withSyns pj S)\<lparr>Prjn := (Prjn (withSyns pj S))\<lparr>Syns := S'\<rparr>\<rparr> = withSyns pj S'"
  by (simp_all add: withSyns_def)

lemma DWtCHL_syn_withSyns [simp]:
  "DWtCHL_syn lb (withSyns pj S) = DWtCHL_syn lb pj"
  by (intro ext) (simp add: DWtCHL_syn_def)

lemma SAvgCor_withSyns [simp]: "CHLPrjn_SAvgCor (withSyns pj S) slay = CHLPrjn_SAvgCor pj slay"
  by (simp add: CHLPrjn_SAvgCor_def)

lemma DWtCHL_syns_withSyns [simp]:
  "DWtCHL_syns lb (withSyns pj S) sn a c rlay scons syns = DWtCHL_syns lb pj sn a c rlay scons syns"
  by (induction lb pj sn a c rlay scons syns rule: DWtCHL_syns.induct)
     (simp_all cong: Option.bind_cong)

lemma DWtCHL_syns_Some:
  assumes "length scons = length syns"
    and "\<forall>ri\<in>set scons. 0 \<le> ri \<and> ri < int (length (Neurons rlay))"
  shows "DWtCHL_syns lb pj sn a c rlay scons syns =
           Some (map2 (\<lambda>ri sy. DWtCHL_syn lb pj sn a c (Neurons rlay ! nat ri) sy) scons syns)"
  using assms
  by (induction scons syns rule: list_induct2) (simp_all add: index_def)

lemma DWtCHL_syns_length:
  "DWtCHL_syns lb pj sn a c rlay scons syns = Some out \<Longrightarrow> length out = length syns"
  by (induction lb pj sn a c rlay scons syns arbitrary: out rule: DWtCHL_syns.induct)
     (auto split: bind_splits)

lemma DWtCHL_syn_LWt [simp]:
  "LWt (DWtCHL_syn lb pj sn a c rn sy) = LWt sy" "Wt (DWtCHL_syn lb pj sn a c rn sy) = Wt sy"
  by (simp_all add: DWtCHL_syn_def Let_def split: prod.splits)

lemma DWtCHL_syns_LWt:
  "DWtCHL_syns lb pj sn a c rlay scons syns = Some out \<Longrightarrow>
     map LWt out = map LWt syns \<and> map Wt out = map Wt syns"
  by (induction lb pj sn a c rlay scons syns arbitrary: out rule: DWtCHL_syns.induct)
     (auto split: bind_splits)

lemma DWtCHL_norm_LWt [simp]:
  "map LWt (DWtCHL_norm syns) = map LWt syns" "map Wt (DWtCHL_norm syns) = map Wt syns"
  "length (DWtCHL_norm syns) = length syns"
  by (simp_all add: DWtCHL_norm_def comp_def)

lemma unslice_same:
  assumes "0 \<le> lo" "lo \<le> hi" "hi \<le> int (length xs)" "length ys = nat (hi - lo)"
    and "map f ys = map f (take (nat (hi - lo)) (drop (nat lo) xs))"
  shows "map f (unslice xs lo ys) = map f xs"
proof -
  define k m where "k = nat (hi - lo)" and "m = nat lo"
  have "take k (drop m xs) @ drop (m + k) xs = drop m xs"
    by (simp add: add.commute flip: drop_drop)
  then have "map f (take k (drop m xs)) @ map f (drop (m + k) xs) = map f (drop m xs)"
    by (metis map_append)
  then have "map f (take m xs) @ map f ys @ map f (drop (m + length ys) xs)
      = map f (take m xs) @ map f (drop m xs)"
    using assms(4,5) by (simp add: k_def m_def)
  then show ?thesis
    by (simp add: unslice_def m_def flip: map_append)
qed

lemma DWtCHL_send_LWt:
  assumes "DWtCHL_send lb slay rlay pj si = Some pj'"
  shows "map LWt (Syns (Prjn pj')) = map LWt (Syns (Prjn pj))
       \<and> map Wt (Syns (Prjn pj')) = map Wt (Syns (Prjn pj))"
proof -
  from assms obtain nc st syns1 where
    sl: "0 \<le> st" "st \<le> st + nc" "st + nc \<le> int (length (Syns (Prjn pj)))"
    and s1: "DWtCHL_syns lb pj (Neurons slay ! si)
               (MinusAct (CHL pj) (ActM (Neurons slay ! si)) (ActQ1 (Neurons slay ! si)) (ActQ2 (Neurons slay ! si)))
               (CHLPrjn_SAvgCor pj slay) rlay
               (take (nat (st + nc - st)) (drop (nat st) (SConIdx (Prjn pj))))
               (take (nat (st + nc - st)) (drop (nat st) (Syns (Prjn pj)))) = Some syns1"
    and pj': "pj' = pj\<lparr>Prjn := (Prjn pj)\<lparr>Syns := unslice (Syns (Prjn pj)) st
                 (if Learn_Norm_On (Prjn pj) then DWtCHL_norm syns1 else syns1)\<rparr>\<rparr>"
    by (auto simp: DWtCHL_send_def Let_def slice_def split: bind_splits if_splits)
  define syns2 where "syns2 = (if Learn_Norm_On (Prjn pj) then DWtCHL_norm syns1 else syns1)"
  let ?S = "Syns (Prjn pj)"
  have len: "length syns2 = nat (st + nc - st)"
    using DWtCHL_syns_length[OF s1] sl by (simp add: syns2_def)
  have "map LWt syns2 = map LWt (take (nat (st + nc - st)) (drop (nat st) ?S))"
    and "map Wt syns2 = map Wt (take (nat (st + nc - st)) (drop (nat st) ?S))"
    using DWtCHL_syns_LWt[OF s1] by (simp_all add: syns2_def)
  then have "map LWt (unslice ?S st syns2) = map LWt ?S" "map Wt (unslice ?S st syns2) = map Wt ?S"
    using unslice_same[OF sl len] by blast+
  then show ?thesis
    by (simp add: pj' flip: syns2_def)
qed

lemma DWtCHL_loop_LWt:
  "DWtCHL_loop lb slay rlay sis pj = Some pj' \<Longrightarrow>
     map LWt (Syns (Prjn pj')) = map LWt (Syns (Prjn pj))
   \<and> map Wt (Syns (Prjn pj')) = map Wt (Syns (Prjn pj))"
proof (induction sis arbitrary: pj)
  case Nil
  then show ?case by simp
next
  case (Cons si sis)
  then obtain pj1 where 1: "DWtCHL_send lb slay rlay pj si = Some pj1"
    and 2: "DWtCHL_loop lb slay rlay sis pj1 = Some pj'"
    by (auto split: bind_splits)
  show ?case using DWtCHL_send_LWt[OF 1] Cons.IH[OF 2] by simp
qed

lemma DWtCHL_LWt:
  "DWtCHL lb pj slay rlay = Some pj' \<Longrightarrow>
     map LWt (Syns (Prjn pj')) = map LWt (Syns (Prjn pj))
   \<and> map Wt (Syns (Prjn pj')) = map Wt (Syns (Prjn pj))"
  by (auto simp: DWtCHL_def dest: DWtCHL_loop_LWt split: if_splits)

lemma nth_unslice:
  assumes "nat lo + length ys \<le> length xs" "j < length xs"
  shows "unslice xs lo ys ! j = (if nat lo \<le> j \<and> j < nat lo + length ys then ys ! (j - nat lo) else xs ! j)"
  using assms by (auto simp: unslice_def nth_append min_def)

lemma length_unslice:
  "nat lo + length ys \<le> length xs \<Longrightarrow> length (unslice xs lo ys) = length xs"
  by (simp add: unslice_def)

lemma DWtCHL_send_Some:
  assumes si: "si < length (SConN (Prjn pj))" "si < length (SConIdxSt (Prjn pj))"
    and nn: "0 \<le> SConN (Prjn pj) ! si" "0 \<le> SConIdxSt (Prjn pj) ! si"
    and le: "SConIdxSt (Prjn pj) ! si + SConN (Prjn pj) ! si \<le> int (length S)"
    and len: "length S \<le> length (SConIdx (Prjn pj))"
    and ri: "\<forall>ri\<in>set (SConIdx (Prjn pj)). 0 \<le> ri \<and> ri < int (length (Neurons rlay))"
    and norm: "\<not> Learn_Norm_On (Prjn pj)"
  shows "DWtCHL_send lb slay rlay (withSyns pj S) si =
           Some (withSyns pj (map (\<lambda>j. if in_cons pj si j then syn_of lb pj slay rlay si j (S ! j)
                                        else S ! j) [0..<length S]))"
proof -
  define st nc where "st = SConIdxSt (Prjn pj) ! si" and "nc = SConN (Prjn pj) ! si"
  define m k where "m = nat st" and "k = nat nc"
  define sn where "sn = Neurons slay ! si"
  define a where "a = MinusAct (CHL pj) (ActM sn) (ActQ1 sn) (ActQ2 sn)"
  define c where "c = CHLPrjn_SAvgCor pj slay"
  define scons where "scons = take k (drop m (SConIdx (Prjn pj)))"
  define syns where "syns = take k (drop m S)"
  define out where "out = map2 (\<lambda>ri sy. DWtCHL_syn lb pj sn a c (Neurons rlay ! nat ri) sy) scons syns"
  have mk: "m + k \<le> length S" "m + k \<le> length (SConIdx (Prjn pj))"
    using nn le len by (simp_all add: m_def k_def st_def nc_def)
  have lens: "length scons = k" "length syns = k" "length out = k"
    using mk by (simp_all add: scons_def syns_def out_def)
  have "\<forall>ri\<in>set scons. 0 \<le> ri \<and> ri < int (length (Neurons rlay))"
    using ri by (auto simp: scons_def dest!: in_set_takeD in_set_dropD)
  then have syns_eq: "DWtCHL_syns lb pj sn a c rlay scons syns = Some out"
    unfolding out_def by (intro DWtCHL_syns_Some) (simp_all add: lens)
  have sl1: "slice S st (st + nc) = Some syns"
    and sl2: "slice (SConIdx (Prjn pj)) st (st + nc) = Some scons"
    using nn le len
    by (simp_all add: slice_def syns_def scons_def m_def k_def st_def nc_def)
  have res: "DWtCHL_send lb slay rlay (withSyns pj S) si = Some (withSyns pj (unslice S st out))"
    using si nn norm sl1 sl2 syns_eq
    by (simp add: DWtCHL_send_def index_def Let_def flip: st_def nc_def sn_def a_def c_def)
  have "unslice S st out = map (\<lambda>j. if in_cons pj si j then syn_of lb pj slay rlay si j (S ! j)
                                        else S ! j) [0..<length S]"
  proof (rule nth_equalityI)
    show "length (unslice S st out) = length (map (\<lambda>j. if in_cons pj si j then syn_of lb pj slay rlay si j (S ! j) else S ! j) [0..<length S])"
      using mk lens by (simp add: length_unslice m_def)
  next
    fix j assume "j < length (unslice S st out)"
    then have j: "j < length S" using mk lens by (simp add: length_unslice m_def)
    have inc: "in_cons pj si j \<longleftrightarrow> m \<le> j \<and> j < m + k"
      by (simp add: in_cons_def m_def k_def st_def nc_def)
    show "unslice S st out ! j = map (\<lambda>j. if in_cons pj si j then syn_of lb pj slay rlay si j (S ! j) else S ! j) [0..<length S] ! j"
    proof (cases "m \<le> j \<and> j < m + k")
      case True
      then have jk: "j - m < k" by linarith
      have "out ! (j - m) = DWtCHL_syn lb pj sn a c (Neurons rlay ! nat (scons ! (j - m))) (syns ! (j - m))"
        using jk lens by (simp add: out_def)
      moreover have mj: "m + (j - m) = j" using True by linarith
      have "scons ! (j - m) = SConIdx (Prjn pj) ! j" "syns ! (j - m) = S ! j"
        using jk mk mj by (simp_all add: scons_def syns_def)
      ultimately show ?thesis
        using True j mk lens inc
        by (simp add: nth_unslice m_def[symmetric] syn_of_def Let_def sn_def a_def c_def)
    next
      case False
      then show ?thesis
        using j mk lens inc by (auto simp add: nth_unslice m_def[symmetric])
    qed
  qed
  with res show ?thesis by simp
qed

lemma DWtCHL_loop_Some:
  assumes "\<forall>si\<in>set sis. si < length (SConN (Prjn pj)) \<and> si < length (SConIdxSt (Prjn pj))
             \<and> 0 \<le> SConN (Prjn pj) ! si \<and> 0 \<le> SConIdxSt (Prjn pj) ! si
             \<and> SConIdxSt (Prjn pj) ! si + SConN (Prjn pj) ! si \<le> int (length S)"
    and "sorted_wrt (\<lambda>si sj. SConIdxSt (Prjn pj) ! si + SConN (Prjn pj) ! si
                               \<le> SConIdxSt (Prjn pj) ! sj) sis"
    and "length S \<le> length (SConIdx (Prjn pj))"
    and "\<forall>ri\<in>set (SConIdx (Prjn pj)). 0 \<le> ri \<and> ri < int (length (Neurons rlay))"
    and "\<not> Learn_Norm_On (Prjn pj)"
  shows "\<exists>S'. DWtCHL_loop lb slay rlay sis (withSyns pj S) = Some (withSyns pj S')
            \<and> length S' = length S
            \<and> (\<forall>si\<in>set sis. \<forall>j<length S. in_cons pj si j \<longrightarrow>
                   S' ! j = syn_of lb pj slay rlay si j (S ! j))
            \<and> (\<forall>j<length S. (\<forall>si\<in>set sis. \<not> in_cons pj si j) \<longrightarrow> S' ! j = S ! j)"
  using assms
proof (induction sis arbitrary: S)
  case Nil
  show ?case by (intro exI[of _ S]) simp
next
  case (Cons a sis)
  define S1 where "S1 = map (\<lambda>j. if in_cons pj a j then syn_of lb pj slay rlay a j (S ! j)
                                   else S ! j) [0..<length S]"
  have step: "DWtCHL_send lb slay rlay (withSyns pj S) a = Some (withSyns pj S1)"
    unfolding S1_def using Cons.prems by (intro DWtCHL_send_Some) simp_all
  have len1: "length S1 = length S" by (simp add: S1_def)
  have disj: "\<not> (in_cons pj a j \<and> in_cons pj si j)" if "si \<in> set sis" for si j
  proof -
    have "SConIdxSt (Prjn pj) ! a + SConN (Prjn pj) ! a \<le> SConIdxSt (Prjn pj) ! si"
      using Cons.prems(2) that by simp
    moreover have "0 \<le> SConN (Prjn pj) ! a" "0 \<le> SConIdxSt (Prjn pj) ! a"
      using Cons.prems(1) by simp_all
    ultimately show ?thesis
      by (auto simp: in_cons_def)
  qed
  from Cons.IH[of S1] Cons.prems len1
  obtain S' where
    loop: "DWtCHL_loop lb slay rlay sis (withSyns pj S1) = Some (withSyns pj S')"
    and len': "length S' = length S1"
    and upd: "\<forall>si\<in>set sis. \<forall>j<length S1. in_cons pj si j \<longrightarrow>
                   S' ! j = syn_of lb pj slay rlay si j (S1 ! j)"
    and frame: "\<forall>j<length S1. (\<forall>si\<in>set sis. \<not> in_cons pj si j) \<longrightarrow> S' ! j = S1 ! j"
    by auto
  have "DWtCHL_loop lb slay rlay (a # sis) (withSyns pj S) = Some (withSyns pj S')"
    using step loop by simp
  moreover have "length S' = length S" using len' len1 by simp
  moreover have "\<forall>si\<in>set (a # sis). \<forall>j<length S. in_cons pj si j \<longrightarrow>
                   S' ! j = syn_of lb pj slay rlay si j (S ! j)"
  proof (intro ballI allI impI)
    fix si j assume si: "si \<in> set (a # sis)" and j: "j < length S" and inc: "in_cons pj si j"
    show "S' ! j = syn_of lb pj slay rlay si j (S ! j)"
    proof (cases "in_cons pj a j")
      case True
      then have "\<forall>x\<in>set sis. \<not> in_cons pj x j" using disj by blast
      then have "S' ! j = S1 ! j" using frame j len1 by simp
      moreover have "S1 ! j = syn_of lb pj slay rlay a j (S ! j)" using True j by (simp add: S1_def)
      moreover have "si = a" using si inc True disj by auto
      ultimately show ?thesis by simp
    next
      case False
      then have "si \<in> set sis" using si inc by auto
      then have "S' ! j = syn_of lb pj slay rlay si j (S1 ! j)" using upd j len1 inc by simp
      moreover have "S1 ! j = S ! j" using False j by (simp add: S1_def)
      ultimately show ?thesis by simp
    qed
  qed
  moreover have "\<forall>j<length S. (\<forall>si\<in>set (a # sis). \<not> in_cons pj si j) \<longrightarrow> S' ! j = S ! j"
  proof (intro allI impI)
    fix j assume j: "j < length S" and no: "\<forall>si\<in>set (a # sis). \<not> in_cons pj si j"
    then have "S' ! j = S1 ! j" using frame len1 by simp
    moreover have "S1 ! j = S ! j" using no j by (simp add: S1_def)
    ultimately show "S' ! j = S ! j" by simp
  qed
  ultimately show ?case by blast
qed

lemma DWtCHL_syn_DWt:
  assumes "\<not> Learn_Norm_On (Prjn pj)" "\<not> Learn_Momentum_On (Prjn pj)"
  shows "DWt (DWtCHL_syn lb pj sn a c rn sy) =
           DWt sy + Learn_Lrate (Prjn pj) *
             (Hebb (CHL pj) * HebbDWt (CHL pj) (ActP sn) (ActP rn) c (LWt sy)
              + Err (CHL pj) * ErrDWt (CHL pj) (ActP sn) a (ActP rn)
                                 (MinusAct (CHL pj) (ActM rn) (ActQ1 rn) (ActQ2 rn)) (LWt sy))"
  using assms by (simp add: DWtCHL_syn_def CHLParams_DWt_def Let_def)

lemma wf_cons_sorted:
  assumes "wf_cons pj slay rlay"
  shows "sorted_wrt (\<lambda>si sj. SConIdxSt (Prjn pj) ! si + SConN (Prjn pj) ! si
                               \<le> SConIdxSt (Prjn pj) ! sj) [0..<length (Neurons slay)]"
  using assms
  by (auto simp: wf_cons_def Let_def list_all_iff sorted_wrt_iff_nth_less)

lemma DWtCHL_pass:
  assumes wf: "wf_cons pj slay rlay"
    and norm: "\<not> Learn_Norm_On (Prjn pj)"
    and act: "\<not> Pool0_ActP_Avg slay < SAvgThr (CHL pj)"
  shows "\<exists>pj'. DWtCHL lb pj slay rlay = Some pj'
            \<and> (\<forall>si<length (Neurons slay). \<forall>j. in_cons pj si j \<longrightarrow>
                  Syns (Prjn pj') ! j = syn_of lb pj slay rlay si j (Syns (Prjn pj) ! j))"
proof -
  let ?S = "Syns (Prjn pj)" and ?n = "length (Neurons slay)"
  have 1: "\<forall>si\<in>set [0..<?n]. si < length (SConN (Prjn pj)) \<and> si < length (SConIdxSt (Prjn pj))
             \<and> 0 \<le> SConN (Prjn pj) ! si \<and> 0 \<le> SConIdxSt (Prjn pj) ! si
             \<and> SConIdxSt (Prjn pj) ! si + SConN (Prjn pj) ! si \<le> int (length ?S)"
    using wf by (auto simp: wf_cons_def Let_def list_all_iff)
  have 2: "length ?S \<le> length (SConIdx (Prjn pj))"
    and 3: "\<forall>ri\<in>set (SConIdx (Prjn pj)). 0 \<le> ri \<and> ri < int (length (Neurons rlay))"
    using wf by (auto simp: wf_cons_def Let_def list_all_iff)
  from DWtCHL_loop_Some[OF 1 wf_cons_sorted[OF wf] 2 3 norm, of lb slay]
  obtain S' where loop: "DWtCHL_loop lb slay rlay [0..<?n] (withSyns pj ?S) = Some (withSyns pj S')"
    and upd: "\<forall>si\<in>set [0..<?n]. \<forall>j<length ?S. in_cons pj si j \<longrightarrow>
                   S' ! j = syn_of lb pj slay rlay si j (?S ! j)"
    by blast
  have "DWtCHL lb pj slay rlay = Some (withSyns pj S')"
    using loop act by (simp add: DWtCHL_def)
  moreover have "Syns (Prjn (withSyns pj S')) ! j = syn_of lb pj slay rlay si j (?S ! j)"
    if "si < ?n" "in_cons pj si j" for si j
  proof -
    have "0 \<le> SConN (Prjn pj) ! si" "0 \<le> SConIdxSt (Prjn pj) ! si"
      "SConIdxSt (Prjn pj) ! si + SConN (Prjn pj) ! si \<le> int (length ?S)"
      using 1 that(1) by simp_all
    then have "nat (SConIdxSt (Prjn pj) ! si) + nat (SConN (Prjn pj) ! si) \<le> length ?S"
      by linarith
    then have "j < length ?S" using that(2) by (simp add: in_cons_def)
    then show ?thesis using upd that by simp
  qed
  ultimately show ?thesis by blast
qed

lemma wf_ex: "wf_cons pj_ex slay_ex rlay_ex"
  by (simp add: wf_cons_def pj_ex_def slay_ex_def rlay_ex_def Let_def)

subsection \<open>The claims\<close>

text \<open>
  C1. Take a projection whose connection arrays are as leabra builds them, with
  normalization and momentum off and a sending layer active enough to learn. Then
  \<open>DWtCHL\<close> returns, and for every synapse \<open>j\<close> of every sending neuron \<open>si\<close> the
  error-driven term is \<open>err0 = rActP * sActP - rActM * sActM\<close>, times \<open>1 - LWt\<close> when
  \<open>err0 > 0\<close> and times \<open>LWt\<close> otherwise, and \<open>DWt\<close> grows by exactly
  \<open>Lrate * (Hebb * hebb + Err * err)\<close>, \<open>hebb\<close> being the Hebbian term.
\<close>

theorem DWtCHL_accumulates:
  assumes "wf_cons pj slay rlay"
    and "\<not> Learn_Norm_On (Prjn pj)" and "\<not> Learn_Momentum_On (Prjn pj)"
    and "\<not> Pool0_ActP_Avg slay < SAvgThr (CHL pj)"
  shows "\<exists>pj'. DWtCHL lb pj slay rlay = Some pj'
            \<and> (\<forall>si<length (Neurons slay). \<forall>j. in_cons pj si j \<longrightarrow>
                 (let sn = Neurons slay ! si;
                      rn = Neurons rlay ! nat (SConIdx (Prjn pj) ! j);
                      sy = Syns (Prjn pj) ! j;
                      sActM = MinusAct (CHL pj) (ActM sn) (ActQ1 sn) (ActQ2 sn);
                      rActM = MinusAct (CHL pj) (ActM rn) (ActQ1 rn) (ActQ2 rn);
                      err0 = ActP rn * ActP sn - rActM * sActM;
                      err = (if err0 > 0 then err0 * (1 - LWt sy) else err0 * LWt sy);
                      hebb = HebbDWt (CHL pj) (ActP sn) (ActP rn) (CHLPrjn_SAvgCor pj slay) (LWt sy)
                  in DWt (Syns (Prjn pj') ! j)
                       = DWt sy + Learn_Lrate (Prjn pj) * (Hebb (CHL pj) * hebb + Err (CHL pj) * err)))"
proof -
  from DWtCHL_pass[OF assms(1,2,4), of lb]
  obtain pj' where 1: "DWtCHL lb pj slay rlay = Some pj'"
    and 2: "\<forall>si<length (Neurons slay). \<forall>j. in_cons pj si j \<longrightarrow>
                  Syns (Prjn pj') ! j = syn_of lb pj slay rlay si j (Syns (Prjn pj) ! j)"
    by blast
  show ?thesis
    using 1 2 assms(2,3)
    by (simp add: syn_of_def Let_def DWtCHL_syn_DWt ErrDWt_def)
qed

theorem DWtCHL_accumulates_witness:
  "wf_cons pj_ex slay_ex rlay_ex
   \<and> \<not> Learn_Norm_On (Prjn pj_ex) \<and> \<not> Learn_Momentum_On (Prjn pj_ex)
   \<and> \<not> Pool0_ActP_Avg slay_ex < SAvgThr (CHL pj_ex)
   \<and> (\<exists>pj'. DWtCHL lb_ex pj_ex slay_ex rlay_ex = Some pj'
         \<and> in_cons pj_ex 0 1
         \<and> DWt (Syns (Prjn pj') ! 1) = 0.5 * (0.25 * 0.5 + 0.75 * 0.5))"
proof -
  have h: "\<not> Learn_Norm_On (Prjn pj_ex)" "\<not> Learn_Momentum_On (Prjn pj_ex)"
    "\<not> Pool0_ActP_Avg slay_ex < SAvgThr (CHL pj_ex)"
    by (simp_all add: pj_ex_def slay_ex_def)
  have i: "in_cons pj_ex 0 1" by (simp add: in_cons_def pj_ex_def)
  from DWtCHL_accumulates[OF wf_ex h, of lb_ex]
  obtain pj' where 1: "DWtCHL lb_ex pj_ex slay_ex rlay_ex = Some pj'"
    and 2: "\<forall>si<length (Neurons slay_ex). \<forall>j. in_cons pj_ex si j \<longrightarrow>
                 (let sn = Neurons slay_ex ! si;
                      rn = Neurons rlay_ex ! nat (SConIdx (Prjn pj_ex) ! j);
                      sy = Syns (Prjn pj_ex) ! j;
                      sActM = MinusAct (CHL pj_ex) (ActM sn) (ActQ1 sn) (ActQ2 sn);
                      rActM = MinusAct (CHL pj_ex) (ActM rn) (ActQ1 rn) (ActQ2 rn);
                      err0 = ActP rn * ActP sn - rActM * sActM;
                      err = (if err0 > 0 then err0 * (1 - LWt sy) else err0 * LWt sy);
                      hebb = HebbDWt (CHL pj_ex) (ActP sn) (ActP rn) (CHLPrjn_SAvgCor pj_ex slay_ex) (LWt sy)
                  in DWt (Syns (Prjn pj') ! j)
                       = DWt sy + Learn_Lrate (Prjn pj_ex) * (Hebb (CHL pj_ex) * hebb + Err (CHL pj_ex) * err))"
    by blast
  have "0 < length (Neurons slay_ex)" by (simp add: slay_ex_def)
  with 2[rule_format, of 0 1] i have "DWt (Syns (Prjn pj') ! 1) = 0.5 * (0.25 * 0.5 + 0.75 * 0.5)"
    by (simp add: Let_def pj_ex_def slay_ex_def rlay_ex_def sy_ex_def MinusAct_def HebbDWt_def
        CHLPrjn_SAvgCor_def)
  with wf_ex h 1 i show ?thesis by blast
qed

text \<open>
  C2. The Hebbian term that \<open>DWtCHL\<close> computes for a synapse is
  \<open>rActP * (sActP * (cor - LWt) - (1 - sActP) * LWt)\<close> with
  \<open>cor = 0.5 / max SAvgThr (0.5 + SAvgCor * (ActPAvgEff - 0.5))\<close>, \<open>ActPAvgEff\<close>
  being the sending layer's effective plus-phase average activation; and with
  normalization and momentum off this is the term that enters the weight delta of
  every synapse the pass updates.
\<close>

theorem Hebb_term_formula:
  "HebbDWt (CHL pj) sActP rActP (CHLPrjn_SAvgCor pj slay) linWt =
     rActP * (sActP * (0.5 / max (SAvgThr (CHL pj))
                                (0.5 + SAvgCor (CHL pj) * (Pool0_ActPAvgEff slay - 0.5)) - linWt)
              - (1 - sActP) * linWt)
   \<and> (wf_cons pj slay rlay \<and> \<not> Learn_Norm_On (Prjn pj) \<and> \<not> Learn_Momentum_On (Prjn pj)
        \<and> \<not> Pool0_ActP_Avg slay < SAvgThr (CHL pj) \<longrightarrow>
      (\<exists>pj'. DWtCHL lb pj slay rlay = Some pj'
         \<and> (\<forall>si<length (Neurons slay). \<forall>j. in_cons pj si j \<longrightarrow>
              (let sn = Neurons slay ! si;
                   rn = Neurons rlay ! nat (SConIdx (Prjn pj) ! j);
                   sy = Syns (Prjn pj) ! j;
                   cor = 0.5 / max (SAvgThr (CHL pj))
                                   (0.5 + SAvgCor (CHL pj) * (Pool0_ActPAvgEff slay - 0.5));
                   hebb = ActP rn * (ActP sn * (cor - LWt sy) - (1 - ActP sn) * LWt sy);
                   err = ErrDWt (CHL pj) (ActP sn)
                           (MinusAct (CHL pj) (ActM sn) (ActQ1 sn) (ActQ2 sn)) (ActP rn)
                           (MinusAct (CHL pj) (ActM rn) (ActQ1 rn) (ActQ2 rn)) (LWt sy)
               in DWt (Syns (Prjn pj') ! j)
                    = DWt sy + Learn_Lrate (Prjn pj) * (Hebb (CHL pj) * hebb + Err (CHL pj) * err)))))"
proof (intro conjI impI)
  show "HebbDWt (CHL pj) sActP rActP (CHLPrjn_SAvgCor pj slay) linWt =
     rActP * (sActP * (0.5 / max (SAvgThr (CHL pj))
                                (0.5 + SAvgCor (CHL pj) * (Pool0_ActPAvgEff slay - 0.5)) - linWt)
              - (1 - sActP) * linWt)"
    by (simp add: HebbDWt_def CHLPrjn_SAvgCor_def Let_def)
next
  assume h: "wf_cons pj slay rlay \<and> \<not> Learn_Norm_On (Prjn pj) \<and> \<not> Learn_Momentum_On (Prjn pj)
        \<and> \<not> Pool0_ActP_Avg slay < SAvgThr (CHL pj)"
  then obtain pj' where 1: "DWtCHL lb pj slay rlay = Some pj'"
    and 2: "\<forall>si<length (Neurons slay). \<forall>j. in_cons pj si j \<longrightarrow>
                  Syns (Prjn pj') ! j = syn_of lb pj slay rlay si j (Syns (Prjn pj) ! j)"
    using DWtCHL_pass[of pj slay rlay lb] by blast
  show "\<exists>pj'. DWtCHL lb pj slay rlay = Some pj'
         \<and> (\<forall>si<length (Neurons slay). \<forall>j. in_cons pj si j \<longrightarrow>
              (let sn = Neurons slay ! si;
                   rn = Neurons rlay ! nat (SConIdx (Prjn pj) ! j);
                   sy = Syns (Prjn pj) ! j;
                   cor = 0.5 / max (SAvgThr (CHL pj))
                                   (0.5 + SAvgCor (CHL pj) * (Pool0_ActPAvgEff slay - 0.5));
                   hebb = ActP rn * (ActP sn * (cor - LWt sy) - (1 - ActP sn) * LWt sy);
                   err = ErrDWt (CHL pj) (ActP sn)
                           (MinusAct (CHL pj) (ActM sn) (ActQ1 sn) (ActQ2 sn)) (ActP rn)
                           (MinusAct (CHL pj) (ActM rn) (ActQ1 rn) (ActQ2 rn)) (LWt sy)
               in DWt (Syns (Prjn pj') ! j)
                    = DWt sy + Learn_Lrate (Prjn pj) * (Hebb (CHL pj) * hebb + Err (CHL pj) * err)))"
    using 1 2 h
    by (simp add: syn_of_def Let_def DWtCHL_syn_DWt HebbDWt_def CHLPrjn_SAvgCor_def)
qed

theorem Hebb_term_formula_witness:
  "wf_cons pj_ex slay_ex rlay_ex
   \<and> \<not> Learn_Norm_On (Prjn pj_ex) \<and> \<not> Learn_Momentum_On (Prjn pj_ex)
   \<and> \<not> Pool0_ActP_Avg slay_ex < SAvgThr (CHL pj_ex)
   \<and> HebbDWt (CHL pj_ex) 1 1 (CHLPrjn_SAvgCor pj_ex slay_ex) 0.5 = 0.5
   \<and> (\<exists>pj'. DWtCHL lb_ex pj_ex slay_ex rlay_ex = Some pj'
         \<and> in_cons pj_ex 0 1
         \<and> DWt (Syns (Prjn pj') ! 1) = 0.25)"
proof -
  have h: "\<not> Learn_Norm_On (Prjn pj_ex)" "\<not> Learn_Momentum_On (Prjn pj_ex)"
    "\<not> Pool0_ActP_Avg slay_ex < SAvgThr (CHL pj_ex)"
    by (simp_all add: pj_ex_def slay_ex_def)
  have i: "in_cons pj_ex 0 1" by (simp add: in_cons_def pj_ex_def)
  note t = Hebb_term_formula[of pj_ex 1 1 slay_ex "0.5" rlay_ex lb_ex]
  have f: "HebbDWt (CHL pj_ex) 1 1 (CHLPrjn_SAvgCor pj_ex slay_ex) 0.5 = 0.5"
    using t[THEN conjunct1] by (simp add: pj_ex_def slay_ex_def)
  from t[THEN conjunct2, rule_format] wf_ex h
  obtain pj' where 1: "DWtCHL lb_ex pj_ex slay_ex rlay_ex = Some pj'"
    and 2: "\<forall>si<length (Neurons slay_ex). \<forall>j. in_cons pj_ex si j \<longrightarrow>
              (let sn = Neurons slay_ex ! si;
                   rn = Neurons rlay_ex ! nat (SConIdx (Prjn pj_ex) ! j);
                   sy = Syns (Prjn pj_ex) ! j;
                   cor = 0.5 / max (SAvgThr (CHL pj_ex))
                                   (0.5 + SAvgCor (CHL pj_ex) * (Pool0_ActPAvgEff slay_ex - 0.5));
                   hebb = ActP rn * (ActP sn * (cor - LWt sy) - (1 - ActP sn) * LWt sy);
                   err = ErrDWt (CHL pj_ex) (ActP sn)
                           (MinusAct (CHL pj_ex) (ActM sn) (ActQ1 sn) (ActQ2 sn)) (ActP rn)
                           (MinusAct (CHL pj_ex) (ActM rn) (ActQ1 rn) (ActQ2 rn)) (LWt sy)
               in DWt (Syns (Prjn pj') ! j)
                    = DWt sy + Learn_Lrate (Prjn pj_ex) * (Hebb (CHL pj_ex) * hebb + Err (CHL pj_ex) * err))"
    by blast
  have "0 < length (Neurons slay_ex)" by (simp add: slay_ex_def)
  with 2[rule_format, of 0 1] i have "DWt (Syns (Prjn pj') ! 1) = 0.25"
    by (simp add: Let_def pj_ex_def slay_ex_def rlay_ex_def sy_ex_def MinusAct_def ErrDWt_def)
  with wf_ex h f 1 i show ?thesis by blast
qed

text \<open>
  C3. After \<open>CHLParams.Update\<close>, and so after \<open>CHLPrjn.UpdateParams\<close> and after the
  two \<open>Defaults\<close>, \<open>Err\<close> is \<open>1 - Hebb\<close>, whatever \<open>Hebb\<close> is; \<open>Update\<close> and
  \<open>UpdateParams\<close> leave \<open>Hebb\<close> as it was.
\<close>

theorem Err_is_one_minus_Hebb:
  "Err (CHLParams_Update ch) = 1 - Hebb ch
   \<and> Hebb (CHLParams_Update ch) = Hebb ch
   \<and> Err (CHL (CHLPrjn_UpdateParams lb pj)) = 1 - Hebb (CHL pj)
   \<and> Hebb (CHL (CHLPrjn_UpdateParams lb pj)) = Hebb (CHL pj)
   \<and> Err (CHLParams_Defaults ch) = 1 - Hebb (CHLParams_Defaults ch)
   \<and> Err (CHL (CHLPrjn_Defaults lb pj)) = 1 - Hebb (CHL (CHLPrjn_Defaults lb pj))"
  by (simp add: CHLParams_Update_def CHLPrjn_UpdateParams_def CHLParams_Defaults_def
      CHLPrjn_Defaults_def Let_def)

text \<open>
  C4. \<open>CHLPrjn.DWt\<close> returns the projection as it was when \<open>Learn.Learn\<close> is false;
  \<open>DWtCHL\<close> returns it as it was when the plus-phase average activation of the
  sending layer is below \<open>SAvgThr\<close>, and so does \<open>CHLPrjn.DWt\<close> with CHL on.
\<close>

theorem no_learning:
  "(\<not> Learn_Learn (Prjn pj) \<longrightarrow> CHLPrjn_DWt lb pj slay rlay = Some pj)
   \<and> (Pool0_ActP_Avg slay < SAvgThr (CHL pj) \<longrightarrow> DWtCHL lb pj slay rlay = Some pj)
   \<and> (On (CHL pj) \<and> Pool0_ActP_Avg slay < SAvgThr (CHL pj) \<longrightarrow>
        CHLPrjn_DWt lb pj slay rlay = Some pj)"
  by (simp add: CHLPrjn_DWt_def DWtCHL_def)

theorem no_learning_witness:
  "\<not> Learn_Learn (Prjn (pj_ex\<lparr>Prjn := (Prjn pj_ex)\<lparr>Learn_Learn := False\<rparr>\<rparr>))
   \<and> CHLPrjn_DWt lb_ex (pj_ex\<lparr>Prjn := (Prjn pj_ex)\<lparr>Learn_Learn := False\<rparr>\<rparr>) slay_ex rlay_ex
       = Some (pj_ex\<lparr>Prjn := (Prjn pj_ex)\<lparr>Learn_Learn := False\<rparr>\<rparr>)
   \<and> On (CHL pj_ex)
   \<and> Pool0_ActP_Avg (slay_ex\<lparr>Pool0_ActP_Avg := 0\<rparr>) < SAvgThr (CHL pj_ex)
   \<and> DWtCHL lb_ex pj_ex (slay_ex\<lparr>Pool0_ActP_Avg := 0\<rparr>) rlay_ex = Some pj_ex
   \<and> CHLPrjn_DWt lb_ex pj_ex (slay_ex\<lparr>Pool0_ActP_Avg := 0\<rparr>) rlay_ex = Some pj_ex"
  using no_learning[of "pj_ex\<lparr>Prjn := (Prjn pj_ex)\<lparr>Learn_Learn := False\<rparr>\<rparr>" lb_ex slay_ex rlay_ex]
    no_learning[of pj_ex lb_ex "slay_ex\<lparr>Pool0_ActP_Avg := 0\<rparr>" rlay_ex]
  by (simp add: pj_ex_def)

text \<open>
  C10. In \<open>MinusAct\<close>, \<open>MinusQ1\<close> comes first: with \<open>MinusQ1\<close> set the result is
  \<open>actQ1\<close>, whatever \<open>MinusQ2\<close> is; \<open>actQ2\<close> is the result with \<open>MinusQ2\<close> set and
  \<open>MinusQ1\<close> not; with neither set it is \<open>actM\<close>.
\<close>

theorem MinusAct_precedence:
  "MinusAct (ch\<lparr>MinusQ1 := True\<rparr>) actM actQ1 actQ2 = actQ1
   \<and> MinusAct (ch\<lparr>MinusQ1 := False, MinusQ2 := True\<rparr>) actM actQ1 actQ2 = actQ2
   \<and> MinusAct (ch\<lparr>MinusQ1 := False, MinusQ2 := False\<rparr>) actM actQ1 actQ2 = actM"
  by (simp add: MinusAct_def)

section \<open>Properties of the memory statistics\<close>

lemma MemStats_units_counts:
  "MemStats_units u nis c =
     \<lparr>trgOnWasOffAll = trgOnWasOffAll c
        + real (length (filter (\<lambda>ni. \<not> Output_Targ u ni < 0.5 \<and> Output_ActM u ni < 0.5) nis)),
      trgOnWasOffCmp = trgOnWasOffCmp c
        + real (length (filter (\<lambda>ni. \<not> Output_Targ u ni < 0.5 \<and> ECin_ActQ1 u ni < 0.5
                                      \<and> Output_ActM u ni < 0.5) nis)),
      trgOffWasOn = trgOffWasOn c
        + real (length (filter (\<lambda>ni. Output_Targ u ni < 0.5 \<and> Output_ActM u ni > 0.5) nis)),
      cmpN = cmpN c
        + real (length (filter (\<lambda>ni. \<not> Output_Targ u ni < 0.5 \<and> ECin_ActQ1 u ni < 0.5) nis)),
      trgOnN = trgOnN c + real (length (filter (\<lambda>ni. \<not> Output_Targ u ni < 0.5) nis)),
      trgOffN = trgOffN c + real (length (filter (\<lambda>ni. Output_Targ u ni < 0.5) nis))\<rparr>"
proof (induction nis arbitrary: c)
  case Nil
  show ?case by (simp add: MemStats_units_def)
next
  case (Cons ni nis)
  have "MemStats_units u (ni # nis) c =
          MemStats_units u nis (MemStats_unit (Output_ActM u ni) (Output_Targ u ni) (ECin_ActQ1 u ni) c)"
    by (simp add: MemStats_units_def)
  then show ?case
    by (simp add: Cons.IH MemStats_unit_def Let_def)
qed

lemma MemStats_units_frame:
  assumes "\<forall>ni\<in>set nis. Output_ActM u ni = Output_ActM u' ni \<and> Output_Targ u ni = Output_Targ u' ni
             \<and> ECin_ActQ1 u ni = ECin_ActQ1 u' ni"
  shows "MemStats_units u nis c = MemStats_units u' nis c"
  using assms
  by (induction nis arbitrary: c) (simp_all add: MemStats_units_def)

lemma cmpN_nonneg: "0 \<le> cmpN (MemStats_units u nis MemCounts0)"
  by (simp add: MemStats_units_counts MemCounts0_def)

text \<open>
  C8, as stated, fails. In training mode the count of completion errors is stored as
  it is, not divided by \<open>cmpN\<close>: with 98 completion bits all wrong the code stores 98
  where the quotient is 1. And the unit at index 98 is not classified: turning it
  from a target that is on into a target that is off with the unit on changes nothing.
\<close>

theorem MemStats_counts_counterexample:
  "cmpN (MemStats_units u_cx [0..<98] MemCounts0) = 98
   \<and> trgOnWasOffCmp (MemStats_units u_cx [0..<98] MemCounts0) = 98
   \<and> TrgOnWasOffCmp (MemStats True u_cx ss_cx) = Fin 98
   \<and> fdiv 98 98 = Fin 1
   \<and> MemStats True (u_cx\<lparr>Output_Targ := (Output_Targ u_cx)(98 := 0),
                          Output_ActM := (Output_ActM u_cx)(98 := 1)\<rparr>) ss_cx
       = MemStats True u_cx ss_cx"
proof -
  have c: "MemStats_units u_cx [0..<98] MemCounts0 =
      \<lparr>trgOnWasOffAll = 98, trgOnWasOffCmp = 98, trgOffWasOn = 0, cmpN = 98, trgOnN = 98, trgOffN = 0\<rparr>"
    by (simp add: MemStats_units_counts MemCounts0_def u_cx_def)
  have "MemStats_units (u_cx\<lparr>Output_Targ := (Output_Targ u_cx)(98 := 0),
                          Output_ActM := (Output_ActM u_cx)(98 := 1)\<rparr>) [0..<98] MemCounts0
        = MemStats_units u_cx [0..<98] MemCounts0"
    by (intro MemStats_units_frame) simp
  then show ?thesis
    by (simp add: c MemStats_def Let_def fdiv_def ss_cx_def)
qed

text \<open>
  C8, amended. \<open>MemStats\<close> classifies the units 0 to 97 of the Output layer, and no
  other unit: \<open>trgOffN\<close> counts the units whose target is below 0.5 and \<open>trgOnN\<close> the
  others, \<open>cmpN\<close> those of the others whose ECin \<open>ActQ1\<close> is below 0.5;
  \<open>trgOffWasOn\<close> counts the target-off units with \<open>ActM\<close> above 0.5,
  \<open>trgOnWasOffAll\<close> the target-on units with \<open>ActM\<close> below 0.5, \<open>trgOnWasOffCmp\<close>
  those of them counted in \<open>cmpN\<close>. \<open>TrgOnWasOffAll\<close> is stored divided by \<open>trgOnN\<close>
  and \<open>TrgOffWasOn\<close> divided by \<open>trgOffN\<close>; \<open>TrgOnWasOffCmp\<close> is stored divided by
  \<open>cmpN\<close> in test mode when \<open>cmpN > 0\<close>, and as the count otherwise.
\<close>

theorem MemStats_counts:
  "(let c = MemStats_units u [0..<98] MemCounts0 in
      trgOffN c = real (length (filter (\<lambda>ni. Output_Targ u ni < 0.5) [0..<98]))
    \<and> trgOnN c = real (length (filter (\<lambda>ni. \<not> Output_Targ u ni < 0.5) [0..<98]))
    \<and> cmpN c = real (length (filter (\<lambda>ni. \<not> Output_Targ u ni < 0.5 \<and> ECin_ActQ1 u ni < 0.5) [0..<98]))
    \<and> trgOffWasOn c = real (length (filter (\<lambda>ni. Output_Targ u ni < 0.5 \<and> Output_ActM u ni > 0.5) [0..<98]))
    \<and> trgOnWasOffAll c = real (length (filter (\<lambda>ni. \<not> Output_Targ u ni < 0.5 \<and> Output_ActM u ni < 0.5) [0..<98]))
    \<and> trgOnWasOffCmp c = real (length (filter (\<lambda>ni. \<not> Output_Targ u ni < 0.5 \<and> ECin_ActQ1 u ni < 0.5
                                      \<and> Output_ActM u ni < 0.5) [0..<98]))
    \<and> TrgOnWasOffAll (MemStats train u ss) = fdiv (trgOnWasOffAll c) (trgOnN c)
    \<and> TrgOffWasOn (MemStats train u ss) = fdiv (trgOffWasOn c) (trgOffN c)
    \<and> TrgOnWasOffCmp (MemStats train u ss) =
        (if \<not> train \<and> cmpN c > 0 then fdiv (trgOnWasOffCmp c) (cmpN c) else Fin (trgOnWasOffCmp c)))
   \<and> MemStats train (u\<lparr>Output_ActM := (Output_ActM u)(98 + k := x)\<rparr>) ss = MemStats train u ss
   \<and> MemStats train (u\<lparr>Output_Targ := (Output_Targ u)(98 + k := x)\<rparr>) ss = MemStats train u ss
   \<and> MemStats train (u\<lparr>ECin_ActQ1 := (ECin_ActQ1 u)(98 + k := x)\<rparr>) ss = MemStats train u ss"
proof -
  have "MemStats_units (u\<lparr>Output_ActM := (Output_ActM u)(98 + k := x)\<rparr>) [0..<98] MemCounts0
          = MemStats_units u [0..<98] MemCounts0"
       "MemStats_units (u\<lparr>Output_Targ := (Output_Targ u)(98 + k := x)\<rparr>) [0..<98] MemCounts0
          = MemStats_units u [0..<98] MemCounts0"
       "MemStats_units (u\<lparr>ECin_ActQ1 := (ECin_ActQ1 u)(98 + k := x)\<rparr>) [0..<98] MemCounts0
          = MemStats_units u [0..<98] MemCounts0"
    by (rule MemStats_units_frame, simp)+
  then have "MemStats train (u\<lparr>Output_ActM := (Output_ActM u)(98 + k := x)\<rparr>) ss = MemStats train u ss"
       "MemStats train (u\<lparr>Output_Targ := (Output_Targ u)(98 + k := x)\<rparr>) ss = MemStats train u ss"
       "MemStats train (u\<lparr>ECin_ActQ1 := (ECin_ActQ1 u)(98 + k := x)\<rparr>) ss = MemStats train u ss"
    by (simp_all add: MemStats_def)
  moreover have "(let c = MemStats_units u [0..<98] MemCounts0 in
      trgOffN c = real (length (filter (\<lambda>ni. Output_Targ u ni < 0.5) [0..<98]))
    \<and> trgOnN c = real (length (filter (\<lambda>ni. \<not> Output_Targ u ni < 0.5) [0..<98]))
    \<and> cmpN c = real (length (filter (\<lambda>ni. \<not> Output_Targ u ni < 0.5 \<and> ECin_ActQ1 u ni < 0.5) [0..<98]))
    \<and> trgOffWasOn c = real (length (filter (\<lambda>ni. Output_Targ u ni < 0.5 \<and> Output_ActM u ni > 0.5) [0..<98]))
    \<and> trgOnWasOffAll c = real (length (filter (\<lambda>ni. \<not> Output_Targ u ni < 0.5 \<and> Output_ActM u ni < 0.5) [0..<98]))
    \<and> trgOnWasOffCmp c = real (length (filter (\<lambda>ni. \<not> Output_Targ u ni < 0.5 \<and> ECin_ActQ1 u ni < 0.5
                                      \<and> Output_ActM u ni < 0.5) [0..<98]))
    \<and> TrgOnWasOffAll (MemStats train u ss) = fdiv (trgOnWasOffAll c) (trgOnN c)
    \<and> TrgOffWasOn (MemStats train u ss) = fdiv (trgOffWasOn c) (trgOffN c)
    \<and> TrgOnWasOffCmp (MemStats train u ss) =
        (if \<not> train \<and> cmpN c > 0 then fdiv (trgOnWasOffCmp c) (cmpN c) else Fin (trgOnWasOffCmp c)))"
    unfolding Let_def
    apply (intro conjI)
            apply (simp_all add: MemStats_units_counts MemCounts0_def)
      apply (simp_all add: MemStats_def Let_def MemStats_units_counts MemCounts0_def split: prod.splits)
    done
  ultimately show ?thesis by blast
qed

text \<open>
  C9. With \<open>offRate = trgOffWasOn / trgOffN\<close>, \<open>allRate = trgOnWasOffAll / trgOnN\<close>
  and \<open>cmpRate = trgOnWasOffCmp / cmpN\<close>: in training mode \<open>Mem\<close> becomes 1 when
  \<open>offRate\<close> and \<open>allRate\<close> are both below \<open>MemThr\<close> and 0 otherwise; in test mode
  \<open>Mem\<close> keeps its value when \<open>cmpN\<close> is 0, and otherwise becomes 1 when \<open>offRate\<close>
  and \<open>cmpRate\<close> are both below \<open>MemThr\<close> and 0 otherwise. A rate that is NaN, from
  a count of 0 units, is not below the threshold.
\<close>

theorem MemStats_Mem:
  "(let c = MemStats_units u [0..<98] MemCounts0;
        offRate = fdiv (trgOffWasOn c) (trgOffN c);
        allRate = fdiv (trgOnWasOffAll c) (trgOnN c);
        cmpRate = fdiv (trgOnWasOffCmp c) (cmpN c)
    in Mem (MemStats True u ss) =
         (if flt offRate (MemThr ss) \<and> flt allRate (MemThr ss) then 1 else 0)
       \<and> Mem (MemStats False u ss) =
         (if cmpN c = 0 then Mem ss
          else if flt offRate (MemThr ss) \<and> flt cmpRate (MemThr ss) then 1 else 0))"
proof -
  have "cmpN (MemStats_units u [0..<98] MemCounts0) = 0
        \<or> cmpN (MemStats_units u [0..<98] MemCounts0) > 0"
    using cmpN_nonneg[of u "[0..<98]"] by linarith
  then show ?thesis
    by (auto simp: MemStats_def Let_def split: prod.splits)
qed

section \<open>Properties of the alpha cycle\<close>

subsection \<open>Auxiliary facts\<close>

lemma seq_Nil [simp]: "seq [] s = s" by (simp add: seq_def)
lemma seq_Cons [simp]: "seq (f # fs) s = seq fs (f s)" by (simp add: seq_def)

lemma for_lt_4: "for_lt 4 body s = body 3 (body 2 (body 1 (body 0 s)))"
  by (simp add: for_lt_def eval_nat_numeral upt_rec)

lemma for_lt_frame:
  assumes "\<And>i s. P (body i s) = P s"
  shows "P (for_lt n body s) = P s"
proof -
  have "P (fold body xs s) = P s" for xs
    by (induction xs arbitrary: s) (simp_all add: assms)
  then show ?thesis by (simp add: for_lt_def)
qed

lemma Net_Prjn_call [simp]: "Net_Prjn (call c ss) = Net_Prjn ss"
  by (simp add: call_def)

lemma Net_Prjn_set [simp]:
  "Net_Prjn (set_Learn k b ss) k' = (if k' = k then (Net_Prjn ss k)\<lparr>Learn := b\<rparr> else Net_Prjn ss k')"
  "Net_Prjn (set_Abs k v ss) k' = (if k' = k then (Net_Prjn ss k)\<lparr>WtScale_Abs := v\<rparr> else Net_Prjn ss k')"
  "Net_Prjn (set_Rel k v ss) k' = (if k' = k then (Net_Prjn ss k)\<lparr>WtScale_Rel := v\<rparr> else Net_Prjn ss k')"
  "Net_Prjn (set_Off l b ss) = Net_Prjn ss"
  by (simp_all add: set_Learn_def set_Abs_def set_Rel_def set_Off_def)

lemma params_call [simp]:
  "Hip_MossyDel (call c ss) = Hip_MossyDel ss"
  "Hip_MossyDelTest (call c ss) = Hip_MossyDelTest ss"
  "Hiponly (call c ss) = Hiponly ss"
  "Record (call c ss) = Record ss"
  "Time_CycPerQtr (call c ss) = Time_CycPerQtr ss"
  by (simp_all add: call_def)

lemma params_set [simp]:
  "Hip_MossyDel (set_Learn k b ss) = Hip_MossyDel ss"
  "Hip_MossyDel (set_Abs k v ss) = Hip_MossyDel ss"
  "Hip_MossyDel (set_Rel k v ss) = Hip_MossyDel ss"
  "Hip_MossyDel (set_Off l b ss) = Hip_MossyDel ss"
  "Hip_MossyDelTest (set_Learn k b ss) = Hip_MossyDelTest ss"
  "Hip_MossyDelTest (set_Abs k v ss) = Hip_MossyDelTest ss"
  "Hip_MossyDelTest (set_Rel k v ss) = Hip_MossyDelTest ss"
  "Hip_MossyDelTest (set_Off l b ss) = Hip_MossyDelTest ss"
  "Time_CycPerQtr (set_Learn k b ss) = Time_CycPerQtr ss"
  "Time_CycPerQtr (set_Abs k v ss) = Time_CycPerQtr ss"
  "Time_CycPerQtr (set_Rel k v ss) = Time_CycPerQtr ss"
  "Time_CycPerQtr (set_Off l b ss) = Time_CycPerQtr ss"
  by (simp_all add: set_Learn_def set_Abs_def set_Rel_def set_Off_def)

lemma Net_Prjn_for_lt_calls [simp]:
  "Net_Prjn (for_lt n (\<lambda>cyc. seq [call c1, call c2]) ss) = Net_Prjn ss"
  "Net_Prjn (for_lt n (\<lambda>cyc. seq [call c1, if_do (b cyc) (seq [call c3, call c4]), call c2]) ss)
     = Net_Prjn ss"
  by (rule for_lt_frame, simp add: if_do_def)+

lemma params_for_lt_calls [simp]:
  "Hip_MossyDelTest (for_lt n (\<lambda>cyc. seq [call c1, call c2]) ss) = Hip_MossyDelTest ss"
  "Hip_MossyDelTest (for_lt n (\<lambda>cyc. seq [call c1, if_do (b cyc) (seq [call c3, call c4]), call c2]) ss)
     = Hip_MossyDelTest ss"
  "Time_CycPerQtr (for_lt n (\<lambda>cyc. seq [call c1, call c2]) ss) = Time_CycPerQtr ss"
  "Time_CycPerQtr (for_lt n (\<lambda>cyc. seq [call c1, if_do (b cyc) (seq [call c3, call c4]), call c2]) ss)
     = Time_CycPerQtr ss"
  by (rule for_lt_frame, simp add: if_do_def)+

lemma AlphaCyc_begin_dg: "snd (AlphaCyc_begin train ss) = WtScale_Rel (Net_Prjn ss ca3FmDg)"
  by (simp add: AlphaCyc_begin_def Let_def if_do_def)

lemma AlphaCyc_begin_scales:
  "WtScale_Abs (Net_Prjn (fst (AlphaCyc_begin train ss)) ca1FmECin) = 1"
  "WtScale_Abs (Net_Prjn (fst (AlphaCyc_begin train ss)) ca1FmCa3) = 0"
  "WtScale_Rel (Net_Prjn (fst (AlphaCyc_begin train ss)) ca3FmDg)
     = WtScale_Rel (Net_Prjn ss ca3FmDg) - Hip_MossyDel ss"
  "WtScale_Rel (Net_Prjn (fst (AlphaCyc_begin train ss)) outputFmCortex)
     = (if Hiponly ss then 0 else 0.5)"
  "Hip_MossyDelTest (fst (AlphaCyc_begin train ss)) = Hip_MossyDelTest ss"
  by (simp_all add: AlphaCyc_begin_def Let_def if_do_def)

lemma AlphaCyc_qtr_scales:
  "WtScale_Abs (Net_Prjn (AlphaCyc_qtr train dg qtr ss) ca1FmECin)
     = (if qtr = 0 then 0 else if qtr = 2 then 1 else WtScale_Abs (Net_Prjn ss ca1FmECin))"
  "WtScale_Abs (Net_Prjn (AlphaCyc_qtr train dg qtr ss) ca1FmCa3)
     = (if qtr = 0 then 1 else if qtr = 2 then 0 else WtScale_Abs (Net_Prjn ss ca1FmCa3))"
  "WtScale_Rel (Net_Prjn (AlphaCyc_qtr train dg qtr ss) ca3FmDg)
     = (if qtr = 0 then (if train then dg else dg - Hip_MossyDelTest ss)
        else WtScale_Rel (Net_Prjn ss ca3FmDg))"
  "WtScale_Rel (Net_Prjn (AlphaCyc_qtr train dg qtr ss) outputFmCortex)
     = WtScale_Rel (Net_Prjn ss outputFmCortex)"
  "Hip_MossyDelTest (AlphaCyc_qtr train dg qtr ss) = Hip_MossyDelTest ss"
  by (simp_all add: AlphaCyc_qtr_def if_do_def)

lemma Net_Prjn_if_do_call [simp]: "Net_Prjn (if_do b (call c) ss) = Net_Prjn ss"
  by (simp add: if_do_def)

lemma AlphaCyc_run_scales:
  "WtScale_Rel (Net_Prjn (AlphaCyc_run train ss) ca3FmDg) = WtScale_Rel (Net_Prjn ss ca3FmDg)"
  "WtScale_Abs (Net_Prjn (AlphaCyc_run train ss) ca1FmCa3) = 1"
  "WtScale_Abs (Net_Prjn (AlphaCyc_run train ss) ca1FmECin) = 1"
  "WtScale_Rel (Net_Prjn (AlphaCyc_run train ss) outputFmCortex) = (if Hiponly ss then 0 else 0.5)"
proof -
  obtain ss0 dg where b: "AlphaCyc_begin train ss = (ss0, dg)" by (cases "AlphaCyc_begin train ss")
  have dg: "dg = WtScale_Rel (Net_Prjn ss ca3FmDg)"
    using AlphaCyc_begin_dg[of train ss] b by simp
  have s0: "WtScale_Rel (Net_Prjn ss0 outputFmCortex) = (if Hiponly ss then 0 else 0.5)"
    using AlphaCyc_begin_scales(4)[of train ss] b by simp
  show "WtScale_Rel (Net_Prjn (AlphaCyc_run train ss) ca3FmDg) = WtScale_Rel (Net_Prjn ss ca3FmDg)"
    "WtScale_Abs (Net_Prjn (AlphaCyc_run train ss) ca1FmCa3) = 1"
    "WtScale_Abs (Net_Prjn (AlphaCyc_run train ss) ca1FmECin) = 1"
    "WtScale_Rel (Net_Prjn (AlphaCyc_run train ss) outputFmCortex) = (if Hiponly ss then 0 else 0.5)"
    by (simp_all add: AlphaCyc_run_def b for_lt_4 AlphaCyc_end_def AlphaCyc_qtr_scales dg s0)
qed

lemma AlphaCycPreTrain_begin_dg: "snd (AlphaCycPreTrain_begin train ss) = WtScale_Rel (Net_Prjn ss ca3FmDg)"
  by (simp add: AlphaCycPreTrain_begin_def Let_def if_do_def)

lemma AlphaCycPreTrain_qtr_scales:
  "WtScale_Abs (Net_Prjn (AlphaCycPreTrain_qtr train dg qtr ss) ca1FmECin)
     = (if qtr = 0 then 0 else if qtr = 2 then 1 else WtScale_Abs (Net_Prjn ss ca1FmECin))"
  "WtScale_Abs (Net_Prjn (AlphaCycPreTrain_qtr train dg qtr ss) ca1FmCa3)
     = (if qtr = 0 then 1 else if qtr = 2 then 0 else WtScale_Abs (Net_Prjn ss ca1FmCa3))"
  by (simp_all add: AlphaCycPreTrain_qtr_def if_do_def)

lemma AlphaCycPreTrain_run_scales:
  "WtScale_Rel (Net_Prjn (AlphaCycPreTrain_run train ss) ca3FmDg) = WtScale_Rel (Net_Prjn ss ca3FmDg)"
  "WtScale_Abs (Net_Prjn (AlphaCycPreTrain_run train ss) ca1FmCa3) = 1"
  "WtScale_Abs (Net_Prjn (AlphaCycPreTrain_run train ss) ca1FmECin) = 1"
proof -
  obtain ss0 dg where b: "AlphaCycPreTrain_begin train ss = (ss0, dg)" by (cases "AlphaCycPreTrain_begin train ss")
  have dg: "dg = WtScale_Rel (Net_Prjn ss ca3FmDg)"
    using AlphaCycPreTrain_begin_dg[of train ss] b by simp
  show "WtScale_Rel (Net_Prjn (AlphaCycPreTrain_run train ss) ca3FmDg) = WtScale_Rel (Net_Prjn ss ca3FmDg)"
    "WtScale_Abs (Net_Prjn (AlphaCycPreTrain_run train ss) ca1FmCa3) = 1"
    "WtScale_Abs (Net_Prjn (AlphaCycPreTrain_run train ss) ca1FmECin) = 1"
    by (simp_all add: AlphaCycPreTrain_run_def b for_lt_4 AlphaCycPreTrain_qtr_scales dg)
qed

lemma AlphaCycRestudy_begin_dg: "snd (AlphaCycRestudy_begin train ss) = WtScale_Rel (Net_Prjn ss ca3FmDg)"
  by (simp add: AlphaCycRestudy_begin_def Let_def if_do_def)

lemma AlphaCycRestudy_qtr_scales:
  "WtScale_Abs (Net_Prjn (AlphaCycRestudy_qtr train dg qtr ss) ca1FmECin)
     = (if qtr = 0 then 0 else if qtr = 2 then 1 else WtScale_Abs (Net_Prjn ss ca1FmECin))"
  "WtScale_Abs (Net_Prjn (AlphaCycRestudy_qtr train dg qtr ss) ca1FmCa3)
     = (if qtr = 0 then 1 else if qtr = 2 then 0 else WtScale_Abs (Net_Prjn ss ca1FmCa3))"
  by (simp_all add: AlphaCycRestudy_qtr_def if_do_def)

lemma AlphaCycRestudy_run_scales:
  "WtScale_Rel (Net_Prjn (AlphaCycRestudy_run train ss) ca3FmDg) = WtScale_Rel (Net_Prjn ss ca3FmDg)"
  "WtScale_Abs (Net_Prjn (AlphaCycRestudy_run train ss) ca1FmCa3) = 1"
  "WtScale_Abs (Net_Prjn (AlphaCycRestudy_run train ss) ca1FmECin) = 1"
proof -
  obtain ss0 dg where b: "AlphaCycRestudy_begin train ss = (ss0, dg)" by (cases "AlphaCycRestudy_begin train ss")
  have dg: "dg = WtScale_Rel (Net_Prjn ss ca3FmDg)"
    using AlphaCycRestudy_begin_dg[of train ss] b by simp
  show "WtScale_Rel (Net_Prjn (AlphaCycRestudy_run train ss) ca3FmDg) = WtScale_Rel (Net_Prjn ss ca3FmDg)"
    "WtScale_Abs (Net_Prjn (AlphaCycRestudy_run train ss) ca1FmCa3) = 1"
    "WtScale_Abs (Net_Prjn (AlphaCycRestudy_run train ss) ca1FmECin) = 1"
    by (simp_all add: AlphaCycRestudy_run_def b for_lt_4 AlphaCycRestudy_qtr_scales dg)
qed

lemma AlphaCycRP_begin_dg: "snd (AlphaCycRP_begin train ss) = WtScale_Rel (Net_Prjn ss ca3FmDg)"
  by (simp add: AlphaCycRP_begin_def Let_def if_do_def)

lemma AlphaCycRP_begin_extra: "WtScale_Abs (Net_Prjn (fst (AlphaCycRP_begin train ss)) autohidFmAutoin) = 1"
  by (simp add: AlphaCycRP_begin_def Let_def if_do_def)

lemma AlphaCycRP_qtr_scales:
  "WtScale_Abs (Net_Prjn (snd (AlphaCycRP_qtr train dg qtr (cpq, ss))) ca1FmECin)
     = (if qtr = 0 \<or> qtr = 2 then 0 else WtScale_Abs (Net_Prjn ss ca1FmECin))"
  "WtScale_Abs (Net_Prjn (snd (AlphaCycRP_qtr train dg qtr (cpq, ss))) autohidFmAutoin)
     = WtScale_Abs (Net_Prjn ss autohidFmAutoin)"
  by (simp_all add: AlphaCycRP_qtr_def if_do_def Let_def)

lemma AlphaCycRP_run_scales:
  "WtScale_Rel (Net_Prjn (AlphaCycRP_run train ss) ca3FmDg) = WtScale_Rel (Net_Prjn ss ca3FmDg)"
  "WtScale_Abs (Net_Prjn (AlphaCycRP_run train ss) ca1FmCa3) = 1"
  "WtScale_Abs (Net_Prjn (AlphaCycRP_run train ss) ca1FmECin) = 0"
  "WtScale_Abs (Net_Prjn (AlphaCycRP_run train ss) autohidFmAutoin) = 1"
proof -
  obtain ss0 dg where b: "AlphaCycRP_begin train ss = (ss0, dg)" by (cases "AlphaCycRP_begin train ss")
  have dg: "dg = WtScale_Rel (Net_Prjn ss ca3FmDg)"
    using AlphaCycRP_begin_dg[of train ss] b by simp
  have e: "WtScale_Abs (Net_Prjn ss0 autohidFmAutoin) = 1"
    using AlphaCycRP_begin_extra[of train ss] b by simp
  define q where "q = AlphaCycRP_qtr train dg"
  obtain c1 s1 where 1: "q 0 (Time_CycPerQtr ss0, ss0) = (c1, s1)" by (cases "q 0 (Time_CycPerQtr ss0, ss0)")
  obtain c2 s2 where 2: "q 1 (c1, s1) = (c2, s2)" by (cases "q 1 (c1, s1)")
  obtain c3 s3 where 3: "q 2 (c2, s2) = (c3, s3)" by (cases "q 2 (c2, s2)")
  obtain c4 s4 where 4: "q 3 (c3, s3) = (c4, s4)" by (cases "q 3 (c3, s3)")
  have s: "s1 = snd (q 0 (Time_CycPerQtr ss0, ss0))" "s2 = snd (q 1 (c1, s1))"
    "s3 = snd (q 2 (c2, s2))" "s4 = snd (q 3 (c3, s3))"
    using 1 2 3 4 by simp_all
  have r: "AlphaCycRP_run train ss =
             seq [set_Rel ca3FmDg dg, set_Abs ca1FmCa3 1, if_do train (call Net_DWt)] s4"
    using 1 2 3 4 by (simp add: AlphaCycRP_run_def b for_lt_4 flip: q_def)
  have a: "WtScale_Abs (Net_Prjn s4 ca1FmECin) = 0" "WtScale_Abs (Net_Prjn s4 autohidFmAutoin) = 1"
    unfolding s q_def by (simp_all add: AlphaCycRP_qtr_scales e)
  show "WtScale_Rel (Net_Prjn (AlphaCycRP_run train ss) ca3FmDg) = WtScale_Rel (Net_Prjn ss ca3FmDg)"
    "WtScale_Abs (Net_Prjn (AlphaCycRP_run train ss) ca1FmCa3) = 1"
    "WtScale_Abs (Net_Prjn (AlphaCycRP_run train ss) ca1FmECin) = 0"
    "WtScale_Abs (Net_Prjn (AlphaCycRP_run train ss) autohidFmAutoin) = 1"
    using a by (simp_all add: r dg)
qed

lemma AlphaCycRPAE_begin_dg: "snd (AlphaCycRPAE_begin train ss) = WtScale_Rel (Net_Prjn ss ca3FmDg)"
  by (simp add: AlphaCycRPAE_begin_def Let_def if_do_def)

lemma AlphaCycRPAE_begin_extra: "WtScale_Abs (Net_Prjn (fst (AlphaCycRPAE_begin train ss)) autohidFmECout) = 0"
  by (simp add: AlphaCycRPAE_begin_def Let_def if_do_def)

lemma AlphaCycRPAE_qtr_scales:
  "WtScale_Abs (Net_Prjn (snd (AlphaCycRPAE_qtr train dg qtr (cpq, ss))) ca1FmECin)
     = (if qtr = 0 \<or> qtr = 2 then 0 else WtScale_Abs (Net_Prjn ss ca1FmECin))"
  "WtScale_Abs (Net_Prjn (snd (AlphaCycRPAE_qtr train dg qtr (cpq, ss))) autohidFmECout)
     = (if qtr = 1 then 1 else WtScale_Abs (Net_Prjn ss autohidFmECout))"
  by (simp_all add: AlphaCycRPAE_qtr_def if_do_def Let_def)

lemma AlphaCycRPAE_run_scales:
  "WtScale_Rel (Net_Prjn (AlphaCycRPAE_run train ss) ca3FmDg) = WtScale_Rel (Net_Prjn ss ca3FmDg)"
  "WtScale_Abs (Net_Prjn (AlphaCycRPAE_run train ss) ca1FmCa3) = 1"
  "WtScale_Abs (Net_Prjn (AlphaCycRPAE_run train ss) ca1FmECin) = 0"
  "WtScale_Abs (Net_Prjn (AlphaCycRPAE_run train ss) autohidFmECout) = 1"
proof -
  obtain ss0 dg where b: "AlphaCycRPAE_begin train ss = (ss0, dg)" by (cases "AlphaCycRPAE_begin train ss")
  have dg: "dg = WtScale_Rel (Net_Prjn ss ca3FmDg)"
    using AlphaCycRPAE_begin_dg[of train ss] b by simp
  have e: "WtScale_Abs (Net_Prjn ss0 autohidFmECout) = 0"
    using AlphaCycRPAE_begin_extra[of train ss] b by simp
  define q where "q = AlphaCycRPAE_qtr train dg"
  obtain c1 s1 where 1: "q 0 (Time_CycPerQtr ss0, ss0) = (c1, s1)" by (cases "q 0 (Time_CycPerQtr ss0, ss0)")
  obtain c2 s2 where 2: "q 1 (c1, s1) = (c2, s2)" by (cases "q 1 (c1, s1)")
  obtain c3 s3 where 3: "q 2 (c2, s2) = (c3, s3)" by (cases "q 2 (c2, s2)")
  obtain c4 s4 where 4: "q 3 (c3, s3) = (c4, s4)" by (cases "q 3 (c3, s3)")
  have s: "s1 = snd (q 0 (Time_CycPerQtr ss0, ss0))" "s2 = snd (q 1 (c1, s1))"
    "s3 = snd (q 2 (c2, s2))" "s4 = snd (q 3 (c3, s3))"
    using 1 2 3 4 by simp_all
  have r: "AlphaCycRPAE_run train ss =
             seq [set_Rel ca3FmDg dg, set_Abs ca1FmCa3 1, if_do train (call Net_DWt)] s4"
    using 1 2 3 4 by (simp add: AlphaCycRPAE_run_def b for_lt_4 flip: q_def)
  have a: "WtScale_Abs (Net_Prjn s4 ca1FmECin) = 0" "WtScale_Abs (Net_Prjn s4 autohidFmECout) = 1"
    unfolding s q_def by (simp_all add: AlphaCycRPAE_qtr_scales e)
  show "WtScale_Rel (Net_Prjn (AlphaCycRPAE_run train ss) ca3FmDg) = WtScale_Rel (Net_Prjn ss ca3FmDg)"
    "WtScale_Abs (Net_Prjn (AlphaCycRPAE_run train ss) ca1FmCa3) = 1"
    "WtScale_Abs (Net_Prjn (AlphaCycRPAE_run train ss) ca1FmECin) = 0"
    "WtScale_Abs (Net_Prjn (AlphaCycRPAE_run train ss) autohidFmECout) = 1"
    using a by (simp_all add: r dg)
qed

lemma WtScale_set_Learn:
  "WtScale_Abs (Net_Prjn (set_Learn k b ss) k') = WtScale_Abs (Net_Prjn ss k')"
  "WtScale_Rel (Net_Prjn (set_Learn k b ss) k') = WtScale_Rel (Net_Prjn ss k')"
  by (simp_all add: set_Learn_def)

lemma AlphaCycAE_qtr_Prjn: "Net_Prjn (snd (AlphaCycAE_qtr train qtr (cpq, ss))) = Net_Prjn ss"
  by (simp add: AlphaCycAE_qtr_def)

lemma AlphaCycAE_run_scales:
  "WtScale_Abs (Net_Prjn (AlphaCycAE_run train ss) k) = WtScale_Abs (Net_Prjn ss k)"
  "WtScale_Rel (Net_Prjn (AlphaCycAE_run train ss) k) = WtScale_Rel (Net_Prjn ss k)"
proof -
  define ss0 where "ss0 = seq [
            if_do train (call Net_WtFmDWt),
            set_Learn ecoutFmCa1 False,
            set_Learn ca1FmECin False,
            set_Learn ca1FmECout False,
            set_Learn dgFmECin False,
            set_Learn ca3FmECin False,
            set_Learn ca3FmDg False,
            set_Learn ca1FmCa3 False,
            set_Learn ca3FmCa3 False,
            set_Learn autohidFmAutoin True,
            set_Learn autoFmAutohid True,
            set_Learn autohidFmAuto True,
            set_Off ''CA1'' True,
            set_Off ''CA3'' True,
            set_Off ''DG'' True,
            set_Off ''ECin'' True,
            set_Off ''Cortex'' True,
            set_Off ''Autohid'' False,
            set_Off ''Auto'' False,
            set_Off ''ECout'' False,
            call Net_AlphaCycInit,
            call Time_AlphaCycStart] ss"
  have 0: "WtScale_Abs (Net_Prjn ss0 k) = WtScale_Abs (Net_Prjn ss k)"
    "WtScale_Rel (Net_Prjn ss0 k) = WtScale_Rel (Net_Prjn ss k)"
    unfolding ss0_def by (simp_all add: WtScale_set_Learn del: Net_Prjn_set(1))
  define q where "q = AlphaCycAE_qtr train"
  obtain c1 s1 where 1: "q 0 (Time_CycPerQtr ss0, ss0) = (c1, s1)" by (cases "q 0 (Time_CycPerQtr ss0, ss0)")
  obtain c2 s2 where 2: "q 1 (c1, s1) = (c2, s2)" by (cases "q 1 (c1, s1)")
  obtain c3 s3 where 3: "q 2 (c2, s2) = (c3, s3)" by (cases "q 2 (c2, s2)")
  obtain c4 s4 where 4: "q 3 (c3, s3) = (c4, s4)" by (cases "q 3 (c3, s3)")
  have s: "s1 = snd (q 0 (Time_CycPerQtr ss0, ss0))" "s2 = snd (q 1 (c1, s1))"
    "s3 = snd (q 2 (c2, s2))" "s4 = snd (q 3 (c3, s3))"
    using 1 2 3 4 by simp_all
  have "AlphaCycAE_run train ss =
          (case for_lt 4 q (Time_CycPerQtr ss0, ss0) of (CycPerQtr, ss2) \<Rightarrow> if_do train (call Net_DWt) ss2)"
    unfolding AlphaCycAE_run_def Let_def ss0_def q_def ..
  then have r: "AlphaCycAE_run train ss = if_do train (call Net_DWt) s4"
    using 1 2 3 4 by (simp add: for_lt_4)
  have "Net_Prjn s4 = Net_Prjn ss0"
    unfolding s q_def by (simp add: AlphaCycAE_qtr_Prjn)
  then show "WtScale_Abs (Net_Prjn (AlphaCycAE_run train ss) k) = WtScale_Abs (Net_Prjn ss k)"
    "WtScale_Rel (Net_Prjn (AlphaCycAE_run train ss) k) = WtScale_Rel (Net_Prjn ss k)"
    by (simp_all add: r 0)
qed

lemma learn_free_simps [simp]:
  "learn_free []"
  "learn_free (c # tr) = (c \<noteq> Net_WtFmDWt \<and> c \<noteq> Net_DWt \<and> learn_free tr)"
  "learn_free (tr @ tr') = (learn_free tr \<and> learn_free tr')"
  by (auto simp: learn_free_def)

lemma Calls_call [simp]: "Calls (call c ss) = Calls ss @ [c]"
  by (simp add: call_def)

lemma Calls_set [simp]:
  "Calls (set_Learn k b ss) = Calls ss"
  "Calls (set_Abs k v ss) = Calls ss"
  "Calls (set_Rel k v ss) = Calls ss"
  "Calls (set_Off l b ss) = Calls ss"
  by (simp_all add: set_Learn_def set_Abs_def set_Rel_def set_Off_def)

lemma for_lt_trace:
  assumes "\<And>i s. \<exists>tr. Calls (body i s) = Calls s @ tr \<and> learn_free tr"
  shows "\<exists>tr. Calls (for_lt n body s) = Calls s @ tr \<and> learn_free tr"
proof -
  have "\<exists>tr. Calls (fold body xs s) = Calls s @ tr \<and> learn_free tr" for xs
  proof (induction xs arbitrary: s)
    case Nil
    show ?case by simp
  next
    case (Cons a xs)
    obtain tr1 where 1: "Calls (body a s) = Calls s @ tr1" "learn_free tr1"
      using assms by blast
    obtain tr2 where 2: "Calls (fold body xs (body a s)) = Calls (body a s) @ tr2" "learn_free tr2"
      using Cons.IH by blast
    show ?case using 1 2 by simp
  qed
  then show ?thesis by (simp add: for_lt_def)
qed

lemma AlphaCyc_qtr_trace:
  "\<exists>tr. Calls (AlphaCyc_qtr train dg qtr ss) = Calls ss @ tr \<and> learn_free tr"
proof -
  define s1 where "s1 = for_lt (Time_CycPerQtr ss) (\<lambda>cyc. seq [call Net_Cycle, call Time_CycleInc]) ss"
  have "\<exists>tr. Calls (seq [call Net_Cycle, call Time_CycleInc] s) = Calls s @ tr \<and> learn_free tr"
    for s by simp
  then obtain tr1 where 1: "Calls s1 = Calls ss @ tr1" "learn_free tr1"
    unfolding s1_def using for_lt_trace[of "\<lambda>cyc. seq [call Net_Cycle, call Time_CycleInc]"]
    by blast
  show ?thesis
    unfolding AlphaCyc_qtr_def seq_Cons seq_Nil s1_def[symmetric]
    using 1 by (simp add: if_do_def)
qed

lemma AlphaCyc_begin_trace:
  "\<exists>tr. Calls (fst (AlphaCyc_begin train ss))
           = Calls ss @ (if train then [Net_WtFmDWt] else []) @ tr \<and> learn_free tr"
  by (simp add: AlphaCyc_begin_def Let_def if_do_def)

lemma AlphaCyc_run_trace:
  "\<exists>tr. Calls (AlphaCyc_run train ss)
           = Calls ss @ (if train then [Net_WtFmDWt] else []) @ tr @ (if train then [Net_DWt] else [])
         \<and> learn_free tr"
proof -
  obtain ss0 dg where b: "AlphaCyc_begin train ss = (ss0, dg)" by (cases "AlphaCyc_begin train ss")
  obtain tr0 where 0: "Calls ss0 = Calls ss @ (if train then [Net_WtFmDWt] else []) @ tr0" "learn_free tr0"
    using AlphaCyc_begin_trace[of train ss] b by auto
  define s1 where "s1 = AlphaCyc_qtr train dg 0 ss0"
  define s2 where "s2 = AlphaCyc_qtr train dg 1 s1"
  define s3 where "s3 = AlphaCyc_qtr train dg 2 s2"
  define s4 where "s4 = AlphaCyc_qtr train dg 3 s3"
  obtain tr1 where 1: "Calls s1 = Calls ss0 @ tr1" "learn_free tr1"
    unfolding s1_def using AlphaCyc_qtr_trace by blast
  obtain tr2 where 2: "Calls s2 = Calls s1 @ tr2" "learn_free tr2"
    unfolding s2_def using AlphaCyc_qtr_trace by blast
  obtain tr3 where 3: "Calls s3 = Calls s2 @ tr3" "learn_free tr3"
    unfolding s3_def using AlphaCyc_qtr_trace by blast
  obtain tr4 where 4: "Calls s4 = Calls s3 @ tr4" "learn_free tr4"
    unfolding s4_def using AlphaCyc_qtr_trace by blast
  have r: "AlphaCyc_run train ss = AlphaCyc_end train dg s4"
    by (simp add: AlphaCyc_run_def b for_lt_4 s1_def s2_def s3_def s4_def)
  have "Calls (AlphaCyc_run train ss)
          = Calls ss @ (if train then [Net_WtFmDWt] else []) @ (tr0 @ tr1 @ tr2 @ tr3 @ tr4)
              @ (if train then [Net_DWt] else [])"
    by (simp add: r AlphaCyc_end_def if_do_def 0 1 2 3 4)
  moreover have "learn_free (tr0 @ tr1 @ tr2 @ tr3 @ tr4)"
    using 0 1 2 3 4 by simp
  ultimately show ?thesis by blast
qed

lemma has_names_ex:
  "AlphaCyc train Sim_ex = Some (AlphaCyc_run train Sim_ex)"
  by (simp add: AlphaCyc_def has_names_def Sim_ex_def)

lemma has_names_all:
  "AlphaCyc train Sim_all = Some (AlphaCyc_run train Sim_all)"
  "AlphaCycPreTrain train Sim_all = Some (AlphaCycPreTrain_run train Sim_all)"
  "AlphaCycRP train Sim_all = Some (AlphaCycRP_run train Sim_all)"
  "AlphaCycRPAE train Sim_all = Some (AlphaCycRPAE_run train Sim_all)"
  "AlphaCycRestudy train Sim_all = Some (AlphaCycRestudy_run train Sim_all)"
  "AlphaCycAE train Sim_all = Some (AlphaCycAE_run train Sim_all)"
  by (simp_all add: AlphaCyc_def AlphaCycPreTrain_def AlphaCycRP_def AlphaCycRPAE_def
      AlphaCycRestudy_def AlphaCycAE_def has_names_def Sim_all_def Sim_ex_def)

lemma Sim_ex_scales:
  "WtScale_Rel (Net_Prjn Sim_ex outputFmCortex) = 1"
  "WtScale_Rel (Net_Prjn Sim_all ca3FmDg) = 4"
  "Hiponly Sim_ex = False"
  "Hiponly Sim_all = False"
  by (simp_all add: Sim_ex_def Sim_all_def)

lemma names_frame [simp]:
  "Net_Layers (call c ss) = Net_Layers ss" "Net_Prjns (call c ss) = Net_Prjns ss"
  "Net_Layers (set_Learn k b ss) = Net_Layers ss" "Net_Prjns (set_Learn k b ss) = Net_Prjns ss"
  "Net_Layers (set_Abs k v ss) = Net_Layers ss" "Net_Prjns (set_Abs k v ss) = Net_Prjns ss"
  "Net_Layers (set_Rel k v ss) = Net_Layers ss" "Net_Prjns (set_Rel k v ss) = Net_Prjns ss"
  "Net_Layers (set_Off l b ss) = Net_Layers ss" "Net_Prjns (set_Off l b ss) = Net_Prjns ss"
  by (simp_all add: call_def set_Learn_def set_Abs_def set_Rel_def set_Off_def)

lemma AlphaCyc_qtr_names:
  "Net_Layers (AlphaCyc_qtr train dg qtr ss) = Net_Layers ss"
  "Net_Prjns (AlphaCyc_qtr train dg qtr ss) = Net_Prjns ss"
proof -
  define s1 where "s1 = for_lt (Time_CycPerQtr ss) (\<lambda>cyc. seq [call Net_Cycle, call Time_CycleInc]) ss"
  have 1: "Net_Layers s1 = Net_Layers ss" "Net_Prjns s1 = Net_Prjns ss"
    unfolding s1_def by (rule for_lt_frame, simp)+
  show "Net_Layers (AlphaCyc_qtr train dg qtr ss) = Net_Layers ss"
    "Net_Prjns (AlphaCyc_qtr train dg qtr ss) = Net_Prjns ss"
    unfolding AlphaCyc_qtr_def seq_Cons seq_Nil s1_def[symmetric]
    using 1 by (simp_all add: if_do_def)
qed

lemma AlphaCyc_run_names:
  "Net_Layers (AlphaCyc_run train ss) = Net_Layers ss"
  "Net_Prjns (AlphaCyc_run train ss) = Net_Prjns ss"
proof -
  obtain ss0 dg where b: "AlphaCyc_begin train ss = (ss0, dg)" by (cases "AlphaCyc_begin train ss")
  have "Net_Layers (fst (AlphaCyc_begin train ss)) = Net_Layers ss"
    "Net_Prjns (fst (AlphaCyc_begin train ss)) = Net_Prjns ss"
    by (simp_all add: AlphaCyc_begin_def Let_def if_do_def)
  then have 0: "Net_Layers ss0 = Net_Layers ss" "Net_Prjns ss0 = Net_Prjns ss"
    using b by simp_all
  show "Net_Layers (AlphaCyc_run train ss) = Net_Layers ss"
    "Net_Prjns (AlphaCyc_run train ss) = Net_Prjns ss"
    by (simp_all add: AlphaCyc_run_def b for_lt_4 AlphaCyc_end_def AlphaCyc_qtr_names 0 if_do_def
        Let_def)
qed

lemma panics_on_ConfigNet:
  "AlphaCycRestudy train Sim_ex = None" "AlphaCycRPAE train Sim_ex = None"
  by (simp_all add: AlphaCycRestudy_def AlphaCycRPAE_def has_names_def Sim_ex_def)

subsection \<open>The claims\<close>

text \<open>
  C5. In \<open>AlphaCyc\<close>, \<open>dgwtscale\<close> is the CA3-from-DG relative scale from before the
  trial. During quarter 0 CA1-from-ECin has absolute scale 1, CA1-from-CA3 has 0 and
  CA3-from-DG has \<open>dgwtscale - MossyDel\<close>. After the first pass through the loop
  (the transition to quarter 1) CA1-from-ECin has absolute scale 0, CA1-from-CA3 has
  1, and CA3-from-DG has \<open>dgwtscale\<close> when training and \<open>dgwtscale - MossyDelTest\<close>
  when testing; the second pass leaves the three as they are.
\<close>

theorem AlphaCyc_quarter1_scales:
  "(let (ss0, dgwtscale) = AlphaCyc_begin train ss;
        ss1 = AlphaCyc_qtr train dgwtscale 0 ss0;
        ss2 = AlphaCyc_qtr train dgwtscale 1 ss1
    in dgwtscale = WtScale_Rel (Net_Prjn ss ca3FmDg)
       \<and> WtScale_Abs (Net_Prjn ss0 ca1FmECin) = 1
       \<and> WtScale_Abs (Net_Prjn ss0 ca1FmCa3) = 0
       \<and> WtScale_Rel (Net_Prjn ss0 ca3FmDg) = WtScale_Rel (Net_Prjn ss ca3FmDg) - Hip_MossyDel ss
       \<and> WtScale_Abs (Net_Prjn ss1 ca1FmECin) = 0
       \<and> WtScale_Abs (Net_Prjn ss1 ca1FmCa3) = 1
       \<and> WtScale_Rel (Net_Prjn ss1 ca3FmDg)
           = (if train then WtScale_Rel (Net_Prjn ss ca3FmDg)
              else WtScale_Rel (Net_Prjn ss ca3FmDg) - Hip_MossyDelTest ss)
       \<and> WtScale_Abs (Net_Prjn ss2 ca1FmECin) = 0
       \<and> WtScale_Abs (Net_Prjn ss2 ca1FmCa3) = 1
       \<and> WtScale_Rel (Net_Prjn ss2 ca3FmDg) = WtScale_Rel (Net_Prjn ss1 ca3FmDg)
       \<and> AlphaCyc_run train ss
           = AlphaCyc_end train dgwtscale
               (AlphaCyc_qtr train dgwtscale 3 (AlphaCyc_qtr train dgwtscale 2 ss2)))"
proof -
  obtain ss0 dg where b: "AlphaCyc_begin train ss = (ss0, dg)" by (cases "AlphaCyc_begin train ss")
  have dg: "dg = WtScale_Rel (Net_Prjn ss ca3FmDg)"
    using AlphaCyc_begin_dg[of train ss] b by simp
  have s0: "WtScale_Abs (Net_Prjn ss0 ca1FmECin) = 1" "WtScale_Abs (Net_Prjn ss0 ca1FmCa3) = 0"
    "WtScale_Rel (Net_Prjn ss0 ca3FmDg) = WtScale_Rel (Net_Prjn ss ca3FmDg) - Hip_MossyDel ss"
    "Hip_MossyDelTest ss0 = Hip_MossyDelTest ss"
    using AlphaCyc_begin_scales[of train ss] b by simp_all
  show ?thesis
    by (simp add: b Let_def s0 AlphaCyc_qtr_scales AlphaCyc_run_def for_lt_4 flip: dg)
qed

text \<open>
  C6. A training \<open>AlphaCyc\<close> calls \<open>Net.WtFmDWt\<close> once, before every other call into
  the network, and \<open>Net.DWt\<close> once, after every other one; a testing \<open>AlphaCyc\<close>
  calls neither. So of two training trials in a row, the second one's \<open>WtFmDWt\<close> is
  the call that follows the first one's \<open>DWt\<close>. And \<open>DWtCHL\<close>, the learning pass of
  this repository's projection, leaves \<open>LWt\<close> and \<open>Wt\<close> of every synapse as they were.
\<close>

theorem DWt_applied_at_next_trial:
  "(AlphaCyc True ss = Some ss1 \<longrightarrow>
      (\<exists>tr. Calls ss1 = Calls ss @ [Net_WtFmDWt] @ tr @ [Net_DWt]
            \<and> Net_WtFmDWt \<notin> set tr \<and> Net_DWt \<notin> set tr))
   \<and> (AlphaCyc False ss = Some ss2 \<longrightarrow>
      (\<exists>tr. Calls ss2 = Calls ss @ tr \<and> Net_WtFmDWt \<notin> set tr \<and> Net_DWt \<notin> set tr))
   \<and> (AlphaCyc True ss = Some ss1 \<and> AlphaCyc True ss1 = Some ss3 \<longrightarrow>
      (\<exists>tr tr'. Calls ss3 = Calls ss @ [Net_WtFmDWt] @ tr @ [Net_DWt, Net_WtFmDWt] @ tr' @ [Net_DWt]
            \<and> Net_WtFmDWt \<notin> set tr \<and> Net_DWt \<notin> set tr
            \<and> Net_WtFmDWt \<notin> set tr' \<and> Net_DWt \<notin> set tr'))
   \<and> (DWtCHL lb pj slay rlay = Some pj' \<longrightarrow>
        map LWt (Syns (Prjn pj')) = map LWt (Syns (Prjn pj))
        \<and> map Wt (Syns (Prjn pj')) = map Wt (Syns (Prjn pj)))"
proof -
  have t: "\<exists>tr. Calls s' = Calls s @ [Net_WtFmDWt] @ tr @ [Net_DWt]
            \<and> Net_WtFmDWt \<notin> set tr \<and> Net_DWt \<notin> set tr"
    if "AlphaCyc True s = Some s'" for s s'
  proof -
    have "s' = AlphaCyc_run True s" using that by (simp add: AlphaCyc_def split: if_splits)
    then show ?thesis using AlphaCyc_run_trace[of True s] by (auto simp: learn_free_def)
  qed
  have f: "\<exists>tr. Calls s' = Calls s @ tr \<and> Net_WtFmDWt \<notin> set tr \<and> Net_DWt \<notin> set tr"
    if "AlphaCyc False s = Some s'" for s s'
  proof -
    have "s' = AlphaCyc_run False s" using that by (simp add: AlphaCyc_def split: if_splits)
    then show ?thesis using AlphaCyc_run_trace[of False s] by (auto simp: learn_free_def)
  qed
  have tt: "\<exists>tr tr'. Calls ss3 = Calls ss @ [Net_WtFmDWt] @ tr @ [Net_DWt, Net_WtFmDWt] @ tr' @ [Net_DWt]
            \<and> Net_WtFmDWt \<notin> set tr \<and> Net_DWt \<notin> set tr
            \<and> Net_WtFmDWt \<notin> set tr' \<and> Net_DWt \<notin> set tr'"
    if a1: "AlphaCyc True ss = Some ss1" and a2: "AlphaCyc True ss1 = Some ss3"
  proof -
    obtain tr where 1: "Calls ss1 = Calls ss @ [Net_WtFmDWt] @ tr @ [Net_DWt]"
      "Net_WtFmDWt \<notin> set tr" "Net_DWt \<notin> set tr"
      using t[OF a1] by blast
    obtain tr' where 2: "Calls ss3 = Calls ss1 @ [Net_WtFmDWt] @ tr' @ [Net_DWt]"
      "Net_WtFmDWt \<notin> set tr'" "Net_DWt \<notin> set tr'"
      using t[OF a2] by blast
    have "Calls ss3 = Calls ss @ [Net_WtFmDWt] @ tr @ [Net_DWt, Net_WtFmDWt] @ tr' @ [Net_DWt]"
      using 1(1) 2(1) by simp
    then show ?thesis using 1 2 by blast
  qed
  show ?thesis
    using t f tt DWtCHL_LWt[of lb pj slay rlay pj'] by blast
qed

theorem DWt_applied_at_next_trial_witness:
  "(\<exists>s1 s3 tr tr'. AlphaCyc True Sim_ex = Some s1 \<and> AlphaCyc True s1 = Some s3
        \<and> Calls s3 = [Net_WtFmDWt] @ tr @ [Net_DWt, Net_WtFmDWt] @ tr' @ [Net_DWt]
        \<and> Net_WtFmDWt \<notin> set tr \<and> Net_DWt \<notin> set tr
        \<and> Net_WtFmDWt \<notin> set tr' \<and> Net_DWt \<notin> set tr')
   \<and> (\<exists>s2 tr. AlphaCyc False Sim_ex = Some s2 \<and> Calls s2 = tr
        \<and> Net_WtFmDWt \<notin> set tr \<and> Net_DWt \<notin> set tr)
   \<and> (\<exists>pj'. DWtCHL lb_ex pj_ex slay_ex rlay_ex = Some pj'
        \<and> map LWt (Syns (Prjn pj')) = [0.5, 0.5, 0.5, 0.5])"
proof -
  define s1 where "s1 = AlphaCyc_run True Sim_ex"
  have 1: "AlphaCyc True Sim_ex = Some s1" by (simp add: has_names_ex s1_def)
  have n: "Net_Layers s1 = Net_Layers Sim_ex" "Net_Prjns s1 = Net_Prjns Sim_ex"
    by (simp_all add: s1_def AlphaCyc_run_names)
  have 3: "AlphaCyc True s1 = Some (AlphaCyc_run True s1)"
    using has_names_ex[of True] by (simp add: AlphaCyc_def has_names_def n split: if_splits)
  have 2: "AlphaCyc False Sim_ex = Some (AlphaCyc_run False Sim_ex)" by (simp add: has_names_ex)
  have h: "\<not> Learn_Norm_On (Prjn pj_ex)" "\<not> Pool0_ActP_Avg slay_ex < SAvgThr (CHL pj_ex)"
    by (simp_all add: pj_ex_def slay_ex_def)
  obtain pj' where 4: "DWtCHL lb_ex pj_ex slay_ex rlay_ex = Some pj'"
    using DWtCHL_pass[OF wf_ex h] by blast
  have c: "Calls Sim_ex = []" by (simp add: Sim_ex_def)
  note t = DWt_applied_at_next_trial[of Sim_ex s1 "AlphaCyc_run False Sim_ex"
      "AlphaCyc_run True s1" lb_ex pj_ex slay_ex rlay_ex pj']
  have l: "map LWt (Syns (Prjn pj')) = [0.5, 0.5, 0.5, 0.5]"
    using t 4 by (simp add: pj_ex_def sy_ex_def)
  from t 1 3 obtain tr tr' where
    a: "Calls (AlphaCyc_run True s1)
          = Calls Sim_ex @ [Net_WtFmDWt] @ tr @ [Net_DWt, Net_WtFmDWt] @ tr' @ [Net_DWt]"
      "Net_WtFmDWt \<notin> set tr" "Net_DWt \<notin> set tr" "Net_WtFmDWt \<notin> set tr'" "Net_DWt \<notin> set tr'"
    by blast
  from t 2 obtain tr2 where
    b: "Calls (AlphaCyc_run False Sim_ex) = Calls Sim_ex @ tr2"
      "Net_WtFmDWt \<notin> set tr2" "Net_DWt \<notin> set tr2"
    by blast
  have a': "Calls (AlphaCyc_run True s1)
              = [Net_WtFmDWt] @ tr @ [Net_DWt, Net_WtFmDWt] @ tr' @ [Net_DWt]"
    using a(1) c by simp
  have b': "Calls (AlphaCyc_run False Sim_ex) = tr2"
    using b(1) c by simp
  show ?thesis
  proof (intro conjI)
    show "\<exists>s1 s3 tr tr'. AlphaCyc True Sim_ex = Some s1 \<and> AlphaCyc True s1 = Some s3
        \<and> Calls s3 = [Net_WtFmDWt] @ tr @ [Net_DWt, Net_WtFmDWt] @ tr' @ [Net_DWt]
        \<and> Net_WtFmDWt \<notin> set tr \<and> Net_DWt \<notin> set tr
        \<and> Net_WtFmDWt \<notin> set tr' \<and> Net_DWt \<notin> set tr'"
      by (rule exI[of _ s1], rule exI[of _ "AlphaCyc_run True s1"], rule exI[of _ tr],
          rule exI[of _ tr']) (intro conjI 1 3 a' a(2-5))
    show "\<exists>s2 tr. AlphaCyc False Sim_ex = Some s2 \<and> Calls s2 = tr
        \<and> Net_WtFmDWt \<notin> set tr \<and> Net_DWt \<notin> set tr"
      by (rule exI[of _ "AlphaCyc_run False Sim_ex"], rule exI[of _ tr2]) (intro conjI 2 b' b(2,3))
    show "\<exists>pj'. DWtCHL lb_ex pj_ex slay_ex rlay_ex = Some pj'
        \<and> map LWt (Syns (Prjn pj')) = [0.5, 0.5, 0.5, 0.5]"
      by (rule exI[of _ pj']) (intro conjI 4 l)
  qed
qed

text \<open>
  C7, as stated, fails. On the network that \<open>ConfigNet\<close> builds, the
  Output-from-Cortex relative scale is 1 before a training \<open>AlphaCyc\<close> and 0.5 after.
\<close>

theorem scales_restored_counterexample:
  "AlphaCyc True Sim_ex = Some (AlphaCyc_run True Sim_ex)
   \<and> WtScale_Rel (Net_Prjn Sim_ex outputFmCortex) = 1
   \<and> WtScale_Rel (Net_Prjn (AlphaCyc_run True Sim_ex) outputFmCortex) = 0.5"
  by (simp add: has_names_ex Sim_ex_scales AlphaCyc_run_scales)

text \<open>
  C7, amended. When an alpha-cycle function returns, the CA3-from-DG relative scale
  is what it was before the call. The other scales it assigns are left at fixed
  values: CA1-from-CA3 absolute at 1; CA1-from-ECin absolute at 1 (\<open>AlphaCyc\<close>,
  \<open>AlphaCycPreTrain\<close>, \<open>AlphaCycRestudy\<close>) or 0 (\<open>AlphaCycRP\<close>, \<open>AlphaCycRPAE\<close>);
  Output-from-Cortex relative at 0 with \<open>Hiponly\<close> and 0.5 without (\<open>AlphaCyc\<close>);
  Autohid-from-Autoin absolute at 1 (\<open>AlphaCycRP\<close>); Autohid-from-ECout absolute at
  1 (\<open>AlphaCycRPAE\<close>). \<open>AlphaCycAE\<close> assigns no scale.
\<close>

theorem scales_after_trial:
  "(AlphaCyc train ss = Some ss1 \<longrightarrow>
      WtScale_Rel (Net_Prjn ss1 ca3FmDg) = WtScale_Rel (Net_Prjn ss ca3FmDg)
      \<and> WtScale_Abs (Net_Prjn ss1 ca1FmCa3) = 1
      \<and> WtScale_Abs (Net_Prjn ss1 ca1FmECin) = 1
      \<and> WtScale_Rel (Net_Prjn ss1 outputFmCortex) = (if Hiponly ss then 0 else 0.5))
   \<and> (AlphaCycPreTrain train ss = Some ss2 \<longrightarrow>
      WtScale_Rel (Net_Prjn ss2 ca3FmDg) = WtScale_Rel (Net_Prjn ss ca3FmDg)
      \<and> WtScale_Abs (Net_Prjn ss2 ca1FmCa3) = 1
      \<and> WtScale_Abs (Net_Prjn ss2 ca1FmECin) = 1)
   \<and> (AlphaCycRP train ss = Some ss3 \<longrightarrow>
      WtScale_Rel (Net_Prjn ss3 ca3FmDg) = WtScale_Rel (Net_Prjn ss ca3FmDg)
      \<and> WtScale_Abs (Net_Prjn ss3 ca1FmCa3) = 1
      \<and> WtScale_Abs (Net_Prjn ss3 ca1FmECin) = 0
      \<and> WtScale_Abs (Net_Prjn ss3 autohidFmAutoin) = 1)
   \<and> (AlphaCycRPAE train ss = Some ss4 \<longrightarrow>
      WtScale_Rel (Net_Prjn ss4 ca3FmDg) = WtScale_Rel (Net_Prjn ss ca3FmDg)
      \<and> WtScale_Abs (Net_Prjn ss4 ca1FmCa3) = 1
      \<and> WtScale_Abs (Net_Prjn ss4 ca1FmECin) = 0
      \<and> WtScale_Abs (Net_Prjn ss4 autohidFmECout) = 1)
   \<and> (AlphaCycRestudy train ss = Some ss5 \<longrightarrow>
      WtScale_Rel (Net_Prjn ss5 ca3FmDg) = WtScale_Rel (Net_Prjn ss ca3FmDg)
      \<and> WtScale_Abs (Net_Prjn ss5 ca1FmCa3) = 1
      \<and> WtScale_Abs (Net_Prjn ss5 ca1FmECin) = 1)
   \<and> (AlphaCycAE train ss = Some ss6 \<longrightarrow>
      WtScale_Abs (Net_Prjn ss6 k) = WtScale_Abs (Net_Prjn ss k)
      \<and> WtScale_Rel (Net_Prjn ss6 k) = WtScale_Rel (Net_Prjn ss k))"
proof -
  have "ss1 = AlphaCyc_run train ss" if "AlphaCyc train ss = Some ss1"
    using that by (simp add: AlphaCyc_def split: if_splits)
  moreover have "ss2 = AlphaCycPreTrain_run train ss" if "AlphaCycPreTrain train ss = Some ss2"
    using that by (simp add: AlphaCycPreTrain_def split: if_splits)
  moreover have "ss3 = AlphaCycRP_run train ss" if "AlphaCycRP train ss = Some ss3"
    using that by (simp add: AlphaCycRP_def split: if_splits)
  moreover have "ss4 = AlphaCycRPAE_run train ss" if "AlphaCycRPAE train ss = Some ss4"
    using that by (simp add: AlphaCycRPAE_def split: if_splits)
  moreover have "ss5 = AlphaCycRestudy_run train ss" if "AlphaCycRestudy train ss = Some ss5"
    using that by (simp add: AlphaCycRestudy_def split: if_splits)
  moreover have "ss6 = AlphaCycAE_run train ss" if "AlphaCycAE train ss = Some ss6"
    using that by (simp add: AlphaCycAE_def split: if_splits)
  ultimately show ?thesis
    using AlphaCyc_run_scales[of train ss] AlphaCycPreTrain_run_scales[of train ss]
      AlphaCycRP_run_scales[of train ss] AlphaCycRPAE_run_scales[of train ss]
      AlphaCycRestudy_run_scales[of train ss] AlphaCycAE_run_scales[of train ss k]
    by blast
qed

theorem scales_after_trial_witness:
  "(\<exists>s. AlphaCyc True Sim_all = Some s \<and> WtScale_Rel (Net_Prjn s ca3FmDg) = 4
        \<and> WtScale_Abs (Net_Prjn s ca1FmCa3) = 1 \<and> WtScale_Abs (Net_Prjn s ca1FmECin) = 1
        \<and> WtScale_Rel (Net_Prjn s outputFmCortex) = 0.5)
   \<and> (\<exists>s. AlphaCycPreTrain True Sim_all = Some s \<and> WtScale_Rel (Net_Prjn s ca3FmDg) = 4)
   \<and> (\<exists>s. AlphaCycRP True Sim_all = Some s \<and> WtScale_Rel (Net_Prjn s ca3FmDg) = 4
        \<and> WtScale_Abs (Net_Prjn s ca1FmECin) = 0)
   \<and> (\<exists>s. AlphaCycRPAE True Sim_all = Some s \<and> WtScale_Rel (Net_Prjn s ca3FmDg) = 4
        \<and> WtScale_Abs (Net_Prjn s ca1FmECin) = 0)
   \<and> (\<exists>s. AlphaCycRestudy True Sim_all = Some s \<and> WtScale_Rel (Net_Prjn s ca3FmDg) = 4)
   \<and> (\<exists>s. AlphaCycAE True Sim_all = Some s \<and> WtScale_Rel (Net_Prjn s ca3FmDg) = 4)"
  using scales_after_trial[of True Sim_all "AlphaCyc_run True Sim_all"
      "AlphaCycPreTrain_run True Sim_all" "AlphaCycRP_run True Sim_all"
      "AlphaCycRPAE_run True Sim_all" "AlphaCycRestudy_run True Sim_all"
      "AlphaCycAE_run True Sim_all" ca3FmDg]
  by (simp add: has_names_all Sim_ex_scales)

end
